theory Spec2Isabelle
  imports Complex_Main
begin

section \<open>The HLS fragment collector (fragmentcollector\_hls.cpp)\<close>

text \<open>
  A shallow embedding of the parts of the HLS fragment collector that its specification
  makes claims about. Conventions:
  \<^item> a \<open>double\<close> is a \<open>real\<close>: rounding of IEEE arithmetic is not modelled;
  \<^item> \<open>int\<close>, \<open>long\<close> and \<open>long long\<close> are \<open>int\<close>: values are assumed to stay in range,
    and a conversion from \<open>double\<close> truncates towards zero as in C;
  \<^item> a \<open>char *\<close> into a NUL-terminated buffer is the \<open>string\<close> of the bytes from the
    pointer up to (not including) the terminator; \<open>NULL\<close> is \<open>None\<close>;
  \<^item> a read beyond the terminator, or through \<open>NULL\<close>, is undefined behaviour in C and an
    explicit fault value here.
\<close>

subsection \<open>Characters and the C library functions the source calls\<close>

definition CHAR_CR :: char where "CHAR_CR = CHR 0x0D"
definition CHAR_LF :: char where "CHAR_LF = CHR 0x0A"
definition CHAR_QUOTE :: char where "CHAR_QUOTE = CHR 0x22"

definition isspace :: "char \<Rightarrow> bool" where
  "isspace c = (c = CHR 0x20 \<or> c = CHR 0x09 \<or> c = CHR 0x0A \<or> c = CHR 0x0B \<or> c = CHR 0x0C \<or> c = CHR 0x0D)"

definition isdigit :: "char \<Rightarrow> bool" where
  "isdigit c = (48 \<le> (of_char c :: nat) \<and> (of_char c :: nat) \<le> 57)"

definition digit_value :: "char \<Rightarrow> nat" where
  "digit_value c = (of_char c :: nat) - 48"

text \<open>The value of a run of decimal digits, most significant first.\<close>

fun digits_value :: "nat \<Rightarrow> string \<Rightarrow> nat" where
  "digits_value acc [] = acc"
| "digits_value acc (c # cs) = digits_value (10 * acc + digit_value c) cs"

text \<open>
  \<open>atoll\<close>, \<open>atoi\<close>, \<open>atol\<close>: leading white space, an optional sign, then the longest
  run of digits; 0 when there is none.
\<close>

definition signed_digits :: "string \<Rightarrow> bool \<times> string" where
  "signed_digits s =
     (case dropWhile isspace s of
        [] \<Rightarrow> (False, [])
      | c # cs \<Rightarrow> if c = CHR ''-'' then (True, cs) else if c = CHR ''+'' then (False, cs) else (False, c # cs))"

definition atoll :: "string \<Rightarrow> int" where
  "atoll s =
     (let (neg, r) = signed_digits s; n = int (digits_value 0 (takeWhile isdigit r))
      in if neg then - n else n)"

text \<open>
  \<open>atof\<close> on plain decimal notation: white space, an optional sign, digits, and an optional
  fraction. Exponents, hexadecimal floats, infinities and NaN do not occur in the inputs
  used below and are not modelled.
\<close>

definition atof :: "string \<Rightarrow> real" where
  "atof s =
     (let (neg, r) = signed_digits s;
          ip = takeWhile isdigit r;
          r' = dropWhile isdigit r;
          fp = (case r' of [] \<Rightarrow> [] | c # cs \<Rightarrow> if c = CHR ''.'' then takeWhile isdigit cs else []);
          v = real (digits_value 0 ip) + real (digits_value 0 fp) / 10 ^ length fp
      in if neg then - v else v)"

text \<open>\<open>startswith\<close>: on a match the caller's pointer moves past the prefix.\<close>

fun startswith :: "string \<Rightarrow> string \<Rightarrow> string option" where
  "startswith s [] = Some s"
| "startswith [] (c # p) = None"
| "startswith (d # s) (c # p) = (if d = c then startswith s p else None)"

text \<open>\<open>strstr\<close>: the text from the first occurrence of the needle on.\<close>

fun strstr :: "string \<Rightarrow> string \<Rightarrow> string option" where
  "strstr [] needle = (if needle = [] then Some [] else None)"
| "strstr (c # s) needle =
     (if startswith (c # s) needle \<noteq> None then Some (c # s) else strstr s needle)"

subsection \<open>ParseAttrList\<close>

text \<open>
  The outcome of \<open>ParseAttrList\<close> on a NUL-terminated attribute list: the callback
  invocations made, in order, each as the attribute name (the bytes from \<open>attrName\<close> up to
  \<open>delimEqual\<close>) and the value (the bytes after the \<open>=\<close> up to \<open>fin\<close>); and whether the
  scan then ended at the terminator or read past it.
\<close>

datatype attr_outcome =
    Parsed "(string \<times> string) list"
  | ReadPastTerminator "(string \<times> string) list"

text \<open>
  The loop \<open>while (*delimEqual != '=') delimEqual++\<close>: the name and the text from the
  \<open>=\<close> on. The loop has no test for the terminator: when the remaining text holds no \<open>=\<close>
  it walks off the end of the string (\<open>None\<close>).
\<close>

fun find_delimEqual :: "string \<Rightarrow> (string \<times> string) option" where
  "find_delimEqual [] = None"
| "find_delimEqual (c # cs) =
     (if c = CHR ''='' then Some ([], c # cs)
      else (case find_delimEqual cs of None \<Rightarrow> None | Some (n, r) \<Rightarrow> Some (c # n, r)))"

text \<open>
  The \<open>for (;;)\<close> loop that moves \<open>fin\<close>: the bytes passed over and the text at \<open>fin\<close>
  when the loop breaks.
\<close>

fun scan_fin :: "bool \<Rightarrow> string \<Rightarrow> string \<times> string" where
  "scan_fin inQuote [] = ([], [])"
| "scan_fin inQuote (c # cs) =
     (if c = CHAR_QUOTE then
        (if inQuote then ([c], cs)
         else (let (v, r) = scan_fin True cs in (c # v, r)))
      else if c = CHR '','' \<and> \<not> inQuote then ([], c # cs)
      else (let (v, r) = scan_fin inQuote cs in (c # v, r)))"

lemma find_delimEqual_length:
  "find_delimEqual s = Some (n, r) \<Longrightarrow> length r \<le> length s \<and> r \<noteq> [] \<and> hd r = CHR ''=''"
  by (induction s arbitrary: n r) (auto split: if_splits option.splits)

lemma scan_fin_length: "scan_fin q s = (v, r) \<Longrightarrow> length r \<le> length s"
  by (induction q s arbitrary: v r rule: scan_fin.induct) (auto split: if_splits prod.splits)

lemma scan_fin_eq_progress:
  "scan_fin False (CHR ''='' # cs) = (v, r) \<Longrightarrow> length r \<le> length cs"
  by (auto simp: CHAR_QUOTE_def split: prod.splits dest: scan_fin_length)

function ParseAttrList_loop :: "(string \<times> string) list \<Rightarrow> string \<Rightarrow> attr_outcome" where
  "ParseAttrList_loop acc attrName =
     (if attrName = [] then Parsed acc
      else
        (let attrName' = dropWhile (\<lambda>c. c = CHR '' '') attrName in
         case find_delimEqual attrName' of
           None \<Rightarrow> ReadPastTerminator acc
         | Some (name, delimEqual) \<Rightarrow>
             (let (passed, fin) = scan_fin False delimEqual;
                  acc' = acc @ [(name, tl passed)];
                  fin' = (case fin of [] \<Rightarrow> [] | c # cs \<Rightarrow> if c = CHR '','' then cs else c # cs)
              in ParseAttrList_loop acc' fin')))"
  by pat_completeness auto
termination
proof (relation "measure (\<lambda>(acc, s). length s)", goal_cases)
  case 1
  show ?case by simp
next
  case (2 acc attrName attrName' x2 name delimEqual x passed fin acc' fin')
  from 2 have fd: "find_delimEqual attrName' = Some (name, delimEqual)" by simp
  from find_delimEqual_length[OF fd] obtain cs where
    de: "delimEqual = CHR ''='' # cs" and le1: "length delimEqual \<le> length attrName'"
    by (cases delimEqual) auto
  from 2 have sf: "scan_fin False delimEqual = (passed, fin)" by simp
  from scan_fin_eq_progress[OF sf[unfolded de]] have le2: "length fin \<le> length cs" .
  have le3: "length attrName' \<le> length attrName"
    using 2 by (simp add: length_dropWhile_le)
  have "length fin' \<le> length fin" using 2 by (auto split: list.splits)
  with le1 le2 le3 de show ?case by simp
qed

declare ParseAttrList_loop.simps [simp del]

definition ParseAttrList :: "string \<Rightarrow> attr_outcome" where
  "ParseAttrList attrName = ParseAttrList_loop [] attrName"

subsection \<open>Conversions and integer division as in C\<close>

definition c_trunc :: "real \<Rightarrow> int" where
  "c_trunc x = (if 0 \<le> x then \<lfloor>x\<rfloor> else \<lceil>x\<rceil>)"


subsection \<open>Constants of the source file\<close>

definition PLAYLIST_TIME_DIFF_THRESHOLD_SECONDS :: real where
  "PLAYLIST_TIME_DIFF_THRESHOLD_SECONDS = 1 / 10"
definition MAX_MANIFEST_DOWNLOAD_RETRY :: int where
  "MAX_MANIFEST_DOWNLOAD_RETRY = 3"
definition MAX_SEQ_NUMBER_LAG_COUNT :: int where
  "MAX_SEQ_NUMBER_LAG_COUNT = 50"
definition MAX_SEQ_NUMBER_DIFF_FOR_SEQ_NUM_BASED_SYNC :: int where
  "MAX_SEQ_NUMBER_DIFF_FOR_SEQ_NUM_BASED_SYNC = 2"
definition DISCONTINUITY_DISCARD_TOLERANCE_SECONDS :: real where
  "DISCONTINUITY_DISCARD_TOLERANCE_SECONDS = 30"
definition MAX_PLAYLIST_REFRESH_FOR_DISCONTINUITY_CHECK_EVENT :: nat where
  "MAX_PLAYLIST_REFRESH_FOR_DISCONTINUITY_CHECK_EVENT = 5"
definition MAX_PLAYLIST_REFRESH_FOR_DISCONTINUITY_CHECK_LIVE :: nat where
  "MAX_PLAYLIST_REFRESH_FOR_DISCONTINUITY_CHECK_LIVE = 1"

text \<open>
  From headers that are not part of the source file: the normal play rate of priv\_aamp.h,
  and \<open>DBL_MAX\<close> of float.h.
\<close>

definition AAMP_NORMAL_PLAY_RATE :: real where
  "AAMP_NORMAL_PLAY_RATE = 1"
definition DBL_MAX :: real where
  "DBL_MAX = 2 ^ 1024 - 2 ^ 971"

subsection \<open>Refresh cadence (TrackState::RunFetchLoop)\<close>





subsection \<open>Data model\<close>

datatype TrackType = eTRACK_VIDEO | eTRACK_AUDIO

datatype PlaylistType =
  ePLAYLISTTYPE_UNDEFINED | ePLAYLISTTYPE_EVENT | ePLAYLISTTYPE_VOD

datatype AAMPTuneFailure =
    AAMP_TUNE_INVALID_MANIFEST_FAILURE
  | AAMP_TUNE_MANIFEST_REQ_FAILED
  | AAMP_TUNE_FRAGMENT_DOWNLOAD_FAILURE
  | AAMP_TUNE_LICENCE_TIMEOUT
  | AAMP_TUNE_DRM_DECRYPT_FAILED

text \<open>
  Calls into collaborators that are not part of the source file (the player instance
  \<open>aamp\<close>, the error logger) are recorded in the order they are made.
\<close>

datatype aamp_call =
    SendErrorEvent AAMPTuneFailure
  | SendDownloadErrorEvent AAMPTuneFailure int
  | UpdateDuration real
  | UpdateCullingState real
  | InsertToPlaylistCache string
  | CheckForPlaybackStall bool
  | NotifyFirstFragmentDecrypted
  | aamp_Error string

text \<open>\<open>struct timeval\<close>: seconds and microseconds.\<close>

type_synonym timeval = "int \<times> int"

text \<open>
  \<open>IndexNode\<close>. \<open>pFragmentInfo\<close> points at the \<open>#EXTINF\<close> tag of the fragment inside the
  playlist buffer.
\<close>

record IndexNode =
  completionTimeSecondsFromStart :: real
  pFragmentInfo :: string
  drmMetadataIdx :: int

record DiscontinuityIndexNode =
  fragmentIdx :: int
  position :: real
  programDateTime :: "string option"

text \<open>
  \<open>TrackState\<close>, with the fields the modelled functions read or write. The growable
  arrays \<open>index\<close>, \<open>mDiscontinuityIndex\<close> and \<open>mDrmMetaDataIndex\<close> are lists, their
  counts the lengths of the lists. A DRM metadata node is kept as the payload text of its
  \<open>#EXT-X-FAXS-CM:\<close> tag; the key state that \<open>ParseKeyAttributeCallback\<close> keeps besides
  \<open>fragmentEncrypted\<close> (key URI, IV, metadata hash and the position derived from it) is
  not modelled.
\<close>

record TrackState =
  track_type :: TrackType
  enabled :: bool
  playlist :: "string option"
  index :: "IndexNode list"
  indexFirstMediaSequenceNumber :: int
  currentIdx :: int
  mDrmKeyTagCount :: int
  mDiscontinuityIndex :: "DiscontinuityIndexNode list"
  mDrmMetaDataIndex :: "string list"
  mDrmMetaDataIndexPosition :: int
  mInitFragmentInfo :: "string option"
  targetDurationSeconds :: real
  fragmentURI :: "string option"
  playTarget :: real
  playTargetOffset :: real
  playlistPosition :: real
  fragmentDurationSeconds :: real
  nextMediaSequenceNumber :: int
  byteRangeOffset :: int
  byteRangeLength :: int
  discontinuity :: bool
  mSyncAfterDiscontinuityInProgress :: bool
  mLastMatchedDiscontPosition :: real
  mCulledSeconds :: real
  mDuration :: real
  startTimeForPlaylistSync :: timeval
  fragmentEncrypted :: bool
  eosReached :: bool
  lastPlaylistDownloadTimeMS :: int
  manifestDLFailCount :: int
  segDLFailCount :: int
  segDrmDecryptFailCount :: int
  refreshPlaylist :: bool
  firstIndexDone :: bool
  mIndexingInProgress :: bool

text \<open>
  The \<open>StreamAbstractionAAMP_HLS\<close> context shared by the tracks, together with what the
  modelled functions read from the player instance (\<open>aamp->IsLive()\<close>, \<open>aamp->mLiveOffset\<close>,
  \<open>aamp->DownloadsAreEnabled()\<close>, \<open>aamp->IsTSBSupported()\<close>, \<open>aamp->IsInProgressCDVR()\<close>,
  \<open>aamp->mEnableCache\<close>) and the log of calls made to it.
\<close>

record Context =
  rate :: real
  trickplayMode :: bool
  mTrickPlayFPS :: real
  iframeTrackValid :: bool
  playlistType :: PlaylistType
  hasEndListTag :: bool
  allowsCache :: bool
  mNumberOfTracks :: int
  mIsAtLivePoint :: bool
  mNetworkDownDetected :: bool
  currentProfileIndex :: int
  lastSelectedProfileIndex :: int
  mCheckForRampdown :: bool
  firstFragmentDecrypted :: bool
  seekPosition :: real
  IsLive :: bool
  mLiveOffset :: real
  DownloadsAreEnabled :: bool
  IsTSBSupported :: bool
  IsInProgressCDVR :: bool
  mEnableCache :: bool
  calls :: "aamp_call list"

text \<open>The constructors \<open>TrackState::TrackState\<close> and \<open>StreamAbstractionAAMP_HLS\<close>.\<close>

definition TrackState_new :: "TrackType \<Rightarrow> TrackState" where
  "TrackState_new t =
     \<lparr> track_type = t, enabled = False, playlist = None, index = [],
       indexFirstMediaSequenceNumber = 0, currentIdx = 0, mDrmKeyTagCount = 0,
       mDiscontinuityIndex = [], mDrmMetaDataIndex = [], mDrmMetaDataIndexPosition = 0,
       mInitFragmentInfo = None, targetDurationSeconds = 1, fragmentURI = None,
       playTarget = 0, playTargetOffset = 0, playlistPosition = 0,
       fragmentDurationSeconds = 0, nextMediaSequenceNumber = 0,
       byteRangeOffset = 0, byteRangeLength = 0, discontinuity = False,
       mSyncAfterDiscontinuityInProgress = False, mLastMatchedDiscontPosition = - 1,
       mCulledSeconds = 0, mDuration = 0, startTimeForPlaylistSync = (0, 0),
       fragmentEncrypted = False, eosReached = False, lastPlaylistDownloadTimeMS = 0,
       manifestDLFailCount = 0, segDLFailCount = 0, segDrmDecryptFailCount = 0,
       refreshPlaylist = False,
       firstIndexDone = False, mIndexingInProgress = False \<rparr>"

definition Context_new :: "real \<Rightarrow> real \<Rightarrow> Context" where
  "Context_new seekpos r =
     \<lparr> rate = r, trickplayMode = (r \<noteq> AAMP_NORMAL_PLAY_RATE), mTrickPlayFPS = 4,
       iframeTrackValid = False, playlistType = ePLAYLISTTYPE_UNDEFINED,
       hasEndListTag = False, allowsCache = False, mNumberOfTracks = 0,
       mIsAtLivePoint = False, mNetworkDownDetected = False, currentProfileIndex = 0,
       lastSelectedProfileIndex = 0, mCheckForRampdown = False,
       firstFragmentDecrypted = False, seekPosition = seekpos,
       IsLive = False, mLiveOffset = 15, DownloadsAreEnabled = True,
       IsTSBSupported = False, IsInProgressCDVR = False, mEnableCache = False,
       calls = [] \<rparr>"

subsection \<open>Live-edge adjustment (StreamAbstractionAAMP\_HLS::Init)\<close>

text \<open>
  The block \<open>if (liveAdjust) { ... }\<close> of \<open>Init\<close>, lines 3366 to 3406. The three offsets
  are C \<open>int\<close> variables, so every value assigned to them is truncated.
\<close>

definition Init_liveAdjust :: "Context \<Rightarrow> TrackState \<Rightarrow> TrackState \<Rightarrow> Context \<times> TrackState \<times> TrackState" where
  "Init_liveAdjust ctx video audio =
     (let offsetFromLive = c_trunc (mLiveOffset ctx);
          (ctx1, video1, audio1) =
            (if mDuration video > real_of_int offsetFromLive + playTargetOffset video then
               (let offsetToLiveVideo =
                      c_trunc (mDuration video - real_of_int offsetFromLive - playTargetOffset video);
                    offsetToLiveAudio =
                      (if enabled audio then
                         (if mDuration audio > real_of_int offsetFromLive + playTargetOffset audio
                          then c_trunc (mDuration audio - real_of_int offsetFromLive - playTargetOffset audio)
                          else 0)
                       else offsetToLiveVideo);
                    offsetToLive = min offsetToLiveVideo offsetToLiveAudio;
                    video' = video\<lparr>playTarget := playTarget video + real_of_int offsetToLive\<rparr>;
                    audio' = (if enabled audio
                              then audio\<lparr>playTarget := playTarget audio + real_of_int offsetToLive\<rparr>
                              else audio);
                    ctx' = (if offsetToLive \<noteq> 0 then ctx\<lparr>mIsAtLivePoint := True\<rparr> else ctx)
                in (ctx', video', audio'))
             else (ctx, video, audio))
      in (ctx1\<lparr>seekPosition := playTarget video1\<rparr>, video1, audio1))"

text \<open>
  The offset to live of one track, and the offset applied to both, in the words of the
  specification.
\<close>

definition spec_offset_to_live :: "real \<Rightarrow> real \<Rightarrow> real \<Rightarrow> real" where
  "spec_offset_to_live duration live_offset play_target_offset =
     duration - live_offset - play_target_offset"

definition spec_applied_offset :: "Context \<Rightarrow> TrackState \<Rightarrow> TrackState \<Rightarrow> real" where
  "spec_applied_offset ctx video audio =
     min (spec_offset_to_live (mDuration video) (mLiveOffset ctx) (playTargetOffset video))
         (spec_offset_to_live (mDuration audio) (mLiveOffset ctx) (playTargetOffset audio))"

text \<open>The offsets as the code computes them.\<close>

definition offsetToLive_of :: "Context \<Rightarrow> TrackState \<Rightarrow> int" where
  "offsetToLive_of ctx t =
     c_trunc (mDuration t - real_of_int (c_trunc (mLiveOffset ctx)) - playTargetOffset t)"

definition offsetToLive_applied :: "Context \<Rightarrow> TrackState \<Rightarrow> TrackState \<Rightarrow> int" where
  "offsetToLive_applied ctx video audio =
     min (offsetToLive_of ctx video)
         (if enabled audio then
            (if mDuration audio > real_of_int (c_trunc (mLiveOffset ctx)) + playTargetOffset audio
             then offsetToLive_of ctx audio else 0)
          else offsetToLive_of ctx video)"

subsection \<open>Outcomes other than a normal return\<close>

text \<open>
  What the C code does where it has no defined result: a read outside a buffer, a read
  through \<open>NULL\<close>, a read of a variable that was never assigned; a failed \<open>assert\<close>; and a
  wait on a condition variable that is never signalled.
\<close>

datatype abnormal =
  OutOfBoundsRead | NullDereference | UninitialisedRead | AssertionFailure | WaitsForever

subsection \<open>ParseTimeFromProgramDateTime\<close>

text \<open>One \<open>%d\<close> conversion of \<open>sscanf\<close>: the value and the text after it.\<close>

definition scan_int :: "string \<Rightarrow> (int \<times> string) option" where
  "scan_int s =
     (let (neg, r) = signed_digits s; ds = takeWhile isdigit r
      in if ds = [] then None
         else Some ((if neg then - int (digits_value 0 ds) else int (digits_value 0 ds)),
                    dropWhile isdigit r))"

text \<open>
  \<open>sscanf\<close> with a format of \<open>%d\<close> conversions separated by the given literal characters:
  the values converted until the first mismatch.
\<close>

fun sscanf_ints :: "string \<Rightarrow> string \<Rightarrow> int list" where
  "sscanf_ints [] s = (case scan_int s of None \<Rightarrow> [] | Some (v, r) \<Rightarrow> [v])"
| "sscanf_ints (d # ds) s =
     (case scan_int s of
        None \<Rightarrow> []
      | Some (v, r) \<Rightarrow>
          v # (case r of [] \<Rightarrow> [] | c # r' \<Rightarrow> if c = d then sscanf_ints ds r' else []))"

text \<open>
  \<open>mktime\<close> for the time zone UTC: days since the epoch by the civil-calendar formula, with
  \<open>tm_mon\<close> counted from 0 and carried into the year when out of range.
\<close>

definition days_from_civil :: "int \<Rightarrow> int \<Rightarrow> int \<Rightarrow> int" where
  "days_from_civil y m d =
     (let y' = (if m \<le> 2 then y - 1 else y);
          era = y' div 400;
          yoe = y' - era * 400;
          doy = (153 * (if m > 2 then m - 3 else m + 9) + 2) div 5 + d - 1;
          doe = yoe * 365 + yoe div 4 - yoe div 100 + doy
      in era * 146097 + doe - 719468)"

definition mktime :: "int \<Rightarrow> int \<Rightarrow> int \<Rightarrow> int \<Rightarrow> int \<Rightarrow> int \<Rightarrow> int" where
  "mktime tm_year tm_mon tm_mday tm_hour tm_min tm_sec =
     days_from_civil (tm_year + 1900 + tm_mon div 12) (tm_mon mod 12 + 1) tm_mday * 86400
       + tm_hour * 3600 + tm_min * 60 + tm_sec"

text \<open>
  \<open>None\<close> is the return value \<open>false\<close>, which leaves the caller's \<open>timeval\<close> unassigned.
  The month of the tag goes into \<open>tm_mon\<close> as it is.
\<close>

definition ParseTimeFromProgramDateTime :: "string \<Rightarrow> timeval option" where
  "ParseTimeFromProgramDateTime ptr =
     (let vs = sscanf_ints ''--T::.'' ptr in
      if length vs \<ge> 6 then
        Some (mktime (vs ! 0 - 1900) (vs ! 1) (vs ! 2) (vs ! 3) (vs ! 4) (vs ! 5),
              (if length vs \<ge> 7 then vs ! 6 else 0) * 1000)
      else None)"

definition timeval_seconds :: "timeval \<Rightarrow> real" where
  "timeval_seconds tv = real_of_int (fst tv) + real_of_int (snd tv) / 1000000"

subsection \<open>TrackState::HasDiscontinuityAroundPosition\<close>

text \<open>
  The \<open>for\<close> loop over the discontinuity index. The state is \<open>discontinuityPending\<close>,
  \<open>diffBetweenDiscontinuities\<close> and \<open>mLastMatchedDiscontPosition\<close>; a \<open>break\<close> returns
  the state without looking at the nodes that are left.
\<close>

fun discontinuity_scan ::
  "bool \<Rightarrow> real \<Rightarrow> real \<Rightarrow> DiscontinuityIndexNode list \<Rightarrow> bool \<times> real \<times> real
   \<Rightarrow> abnormal + (bool \<times> real \<times> real)" where
  "discontinuity_scan useStartTime pos culled [] st = Inr st"
| "discontinuity_scan useStartTime pos culled (n # ns) (pending, diffB, lastMatched) =
     (let low = pos - DISCONTINUITY_DISCARD_TOLERANCE_SECONDS;
          high = pos + DISCONTINUITY_DISCARD_TOLERANCE_SECONDS in
      if lastMatched < 0 \<or> position n + culled > lastMatched then
        (if \<not> useStartTime then
           (if low < position n \<and> high > position n then Inr (True, diffB, position n + culled)
            else discontinuity_scan useStartTime pos culled ns (pending, diffB, lastMatched))
         else
           (case programDateTime n of
              None \<Rightarrow> Inl NullDereference
            | Some pdt \<Rightarrow>
                (case ParseTimeFromProgramDateTime pdt of
                   None \<Rightarrow> discontinuity_scan useStartTime pos culled ns (pending, diffB, lastMatched)
                 | Some tv \<Rightarrow>
                     (let discPos = timeval_seconds tv in
                      if low < discPos \<and> high > discPos then
                        (let diff = discPos - pos in
                         if \<bar>diff\<bar> < \<bar>diffB\<bar>
                         then discontinuity_scan useStartTime pos culled ns
                                (True, diff, position n + culled)
                         else Inr (True, diffB, lastMatched))
                      else discontinuity_scan useStartTime pos culled ns (pending, diffB, lastMatched)))))
      else discontinuity_scan useStartTime pos culled ns (pending, diffB, lastMatched))"

text \<open>
  The \<open>while\<close> loop. Each return of \<open>pthread_cond_wait\<close> shows the function the context and
  the track as the indexing thread has left them; these states are the list \<open>later\<close>, and a
  wait with no state left does not return. The result is the return value, the output
  parameter \<open>diffBetweenDiscontinuities\<close>, the context and the track as last seen (the
  track with its \<open>mLastMatchedDiscontPosition\<close>), and the later states not yet seen.
\<close>

fun HasDiscontinuityAroundPosition_loop ::
  "real \<Rightarrow> bool \<Rightarrow> real \<Rightarrow> nat \<Rightarrow> (Context \<times> TrackState) list \<Rightarrow> Context \<Rightarrow> TrackState
   \<Rightarrow> abnormal + (bool \<times> real \<times> Context \<times> TrackState \<times> (Context \<times> TrackState) list)" where
  "HasDiscontinuityAroundPosition_loop pos useStartTime playPosition playlistRefreshCount later ctx t =
     (if \<not> DownloadsAreEnabled ctx then Inr (False, DBL_MAX, ctx, t, later)
      else
        (case discontinuity_scan useStartTime pos (mCulledSeconds t)
                (mDiscontinuityIndex t) (False, DBL_MAX, mLastMatchedDiscontPosition t) of
           Inl e \<Rightarrow> Inl e
         | Inr (pending, diffB, lastMatched) \<Rightarrow>
             (let t' = t\<lparr>mLastMatchedDiscontPosition := lastMatched\<rparr> in
              if pending then Inr (True, diffB, ctx, t', later)
              else if playlistType ctx \<noteq> ePLAYLISTTYPE_VOD then
                (let tsb = (IsTSBSupported ctx \<or> IsInProgressCDVR ctx);
                     maxPlaylistRefreshCount =
                       (if tsb then MAX_PLAYLIST_REFRESH_FOR_DISCONTINUITY_CHECK_EVENT
                        else MAX_PLAYLIST_REFRESH_FOR_DISCONTINUITY_CHECK_LIVE);
                     liveNoTSB = (\<not> tsb) in
                 if playlistRefreshCount < maxPlaylistRefreshCount
                    \<and> (liveNoTSB \<or> mDuration t' < playPosition + DISCONTINUITY_DISCARD_TOLERANCE_SECONDS)
                 then
                   (case later of
                      [] \<Rightarrow> Inl WaitsForever
                    | (ctx', t'') # later' \<Rightarrow>
                        HasDiscontinuityAroundPosition_loop pos useStartTime playPosition
                          (Suc playlistRefreshCount) later' ctx' t'')
                 else Inr (False, diffB, ctx, t', later))
              else Inr (False, diffB, ctx, t', later))))"

definition HasDiscontinuityAroundPosition ::
  "(Context \<times> TrackState) list \<Rightarrow> Context \<Rightarrow> TrackState \<Rightarrow> real \<Rightarrow> bool \<Rightarrow> real
   \<Rightarrow> abnormal + (bool \<times> real \<times> Context \<times> TrackState \<times> (Context \<times> TrackState) list)" where
  "HasDiscontinuityAroundPosition later ctx t pos useStartTime playPosition =
     HasDiscontinuityAroundPosition_loop pos useStartTime playPosition 0 later ctx t"

subsection \<open>TrackState::GetNextFragmentUriFromPlaylist\<close>

text \<open>
  \<open>mystrpbrk\<close> ends the line at \<open>ptr\<close> with a NUL (over the LF, or over a CR in front of
  it) and returns the start of the next line: the C string now at \<open>ptr\<close>, and \<open>next\<close>.
\<close>

definition mystrpbrk :: "string \<Rightarrow> string \<times> string option" where
  "mystrpbrk ptr =
     (if CHAR_LF \<in> set ptr then
        (let lin = takeWhile (\<lambda>c. c \<noteq> CHAR_LF) ptr;
             nxt = tl (dropWhile (\<lambda>c. c \<noteq> CHAR_LF) ptr)
         in ((if lin \<noteq> [] \<and> last lin = CHAR_CR then butlast lin else lin), Some nxt))
      else (ptr, None))"

text \<open>
  \<open>ptr + strlen(ptr) + 1\<close> for a pointer that an earlier walk returned: the C string
  there ends at the NUL that \<open>mystrpbrk\<close> wrote. When the line was the last of the buffer
  and had no LF, the C string ends at the terminator of the buffer and the sum points
  behind it.
\<close>

definition past_cstring :: "string \<Rightarrow> abnormal + string" where
  "past_cstring p =
     (if CHAR_LF \<in> set p then
        (let lin = takeWhile (\<lambda>c. c \<noteq> CHAR_LF) p in
         if lin \<noteq> [] \<and> last lin = CHAR_CR then Inr (dropWhile (\<lambda>c. c \<noteq> CHAR_LF) p)
         else Inr (tl (dropWhile (\<lambda>c. c \<noteq> CHAR_LF) p)))
      else Inl OutOfBoundsRead)"

text \<open>The local variables of the walk.\<close>

record Locals =
  l_byteRangeLength :: int
  l_byteRangeOffset :: int
  l_discontinuity :: bool
  l_programDateTime :: "string option"

text \<open>
  \<open>SubStringMatch\<close> on the value between \<open>valuePtr\<close> and \<open>fin\<close>: whether the value begins
  with the given string. \<open>ParseKeyAttributeCallback\<close> is modelled for the attribute
  \<open>METHOD\<close>, as far as it sets \<open>fragmentEncrypted\<close>.
\<close>

definition SubStringMatch :: "string \<Rightarrow> string \<Rightarrow> bool" where
  "SubStringMatch v cstring = (startswith v cstring \<noteq> None)"

definition ParseKeyAttributeCallback :: "Context \<times> TrackState \<Rightarrow> string \<times> string \<Rightarrow> Context \<times> TrackState" where
  "ParseKeyAttributeCallback st a =
     (case (st, a) of ((ctx, ts), (attrName, v)) \<Rightarrow>
        if attrName = ''METHOD'' then
          (if SubStringMatch v ''NONE'' then
             (ctx, if fragmentEncrypted ts then ts\<lparr>fragmentEncrypted := False\<rparr> else ts)
           else if SubStringMatch v ''AES-128'' then (ctx, ts\<lparr>fragmentEncrypted := True\<rparr>)
           else if SubStringMatch v ''SAMPLE-AES'' then
             (ctx\<lparr>calls := calls ctx @ [aamp_Error ''SAMPLE-AES unsupported'']\<rparr>, ts)
           else (ctx\<lparr>calls := calls ctx @ [aamp_Error ''unsupported METHOD'']\<rparr>, ts))
        else (ctx, ts))"

definition ParseAttrList_key :: "string \<Rightarrow> Context \<Rightarrow> TrackState \<Rightarrow> abnormal + (Context \<times> TrackState)" where
  "ParseAttrList_key attrs ctx ts =
     (case ParseAttrList attrs of
        ReadPastTerminator fs \<Rightarrow> Inl OutOfBoundsRead
      | Parsed fs \<Rightarrow> Inr (foldl ParseKeyAttributeCallback (ctx, ts) fs))"

text \<open>
  A line that begins with \<open>#EXT\<close>; \<open>r\<close> is the text after these four bytes. The tags are
  tested in the order of the source. The tags of the chain that are left out here, and
  unknown tags, change nothing.
\<close>

definition tag_M3U :: "Locals \<Rightarrow> Context \<Rightarrow> TrackState \<Rightarrow> abnormal + (Locals \<times> Context \<times> TrackState)" where
  "tag_M3U loc ctx ts = Inr (loc, ctx, ts)"

definition tag_INF :: "string \<Rightarrow> Locals \<Rightarrow> Context \<Rightarrow> TrackState \<Rightarrow> abnormal + (Locals \<times> Context \<times> TrackState)" where
  "tag_INF a loc ctx ts =
     Inr (loc, ctx,
          ts\<lparr>playlistPosition :=
                (if playlistPosition ts \<noteq> - 1 then playlistPosition ts + fragmentDurationSeconds ts
                 else 0),
              fragmentDurationSeconds := atof a\<rparr>)"

definition tag_BYTERANGE :: "string \<Rightarrow> Locals \<Rightarrow> Context \<Rightarrow> TrackState \<Rightarrow> abnormal + (Locals \<times> Context \<times> TrackState)" where
  "tag_BYTERANGE a loc ctx ts =
     (let temp = take 1023 a in
      if CHR ''@'' \<in> set temp then
        Inr (loc\<lparr>l_byteRangeOffset := atoll (tl (dropWhile (\<lambda>c. c \<noteq> CHR ''@'') temp)),
                 l_byteRangeLength := atoll (takeWhile (\<lambda>c. c \<noteq> CHR ''@'') temp)\<rparr>, ctx, ts)
      else Inr (loc\<lparr>l_byteRangeLength := atoll temp\<rparr>, ctx, ts))"

definition tag_KEY :: "string \<Rightarrow> Locals \<Rightarrow> Context \<Rightarrow> TrackState \<Rightarrow> abnormal + (Locals \<times> Context \<times> TrackState)" where
  "tag_KEY a loc ctx ts =
     (case ParseAttrList_key a ctx ts of
        Inl e \<Rightarrow> Inl e
      | Inr (ctx', ts') \<Rightarrow> Inr (loc, ctx', ts'))"

definition tag_PROGRAM_DATE_TIME :: "string \<Rightarrow> Locals \<Rightarrow> Context \<Rightarrow> TrackState \<Rightarrow> abnormal + (Locals \<times> Context \<times> TrackState)" where
  "tag_PROGRAM_DATE_TIME a loc ctx ts =
     (if mNumberOfTracks ctx > 1 then
        Inr (loc\<lparr>l_programDateTime := Some a\<rparr>, ctx,
             (if startTimeForPlaylistSync ts = (0, 0) then
                (case ParseTimeFromProgramDateTime a of
                   None \<Rightarrow> ts
                 | Some tv \<Rightarrow> ts\<lparr>startTimeForPlaylistSync := tv\<rparr>)
              else ts))
      else Inr (loc, ctx, ts))"

definition tag_ALLOW_CACHE :: "string \<Rightarrow> Locals \<Rightarrow> Context \<Rightarrow> TrackState \<Rightarrow> abnormal + (Locals \<times> Context \<times> TrackState)" where
  "tag_ALLOW_CACHE a loc ctx ts =
     (if startswith a ''YES'' \<noteq> None then Inr (loc, ctx\<lparr>allowsCache := True\<rparr>, ts)
      else if startswith a ''NO'' \<noteq> None then Inr (loc, ctx\<lparr>allowsCache := False\<rparr>, ts)
      else Inr (loc, ctx\<lparr>calls := calls ctx @ [aamp_Error ''unknown ALLOW-CACHE setting'']\<rparr>, ts))"

text \<open>The pointer after a prefix that \<open>startswith\<close> has matched.\<close>

definition after_prefix :: "string \<Rightarrow> string \<Rightarrow> string" where
  "after_prefix pre s = drop (length pre) s"

definition tag_line :: "string \<Rightarrow> Locals \<Rightarrow> Context \<Rightarrow> TrackState \<Rightarrow> abnormal + (Locals \<times> Context \<times> TrackState)" where
  "tag_line r loc ctx ts =
     (if startswith r ''M3U'' \<noteq> None then tag_M3U loc ctx ts
      else if startswith r ''INF:'' \<noteq> None then tag_INF (after_prefix ''INF:'' r) loc ctx ts
      else if startswith r ''-X-BYTERANGE:'' \<noteq> None
        then tag_BYTERANGE (after_prefix ''-X-BYTERANGE:'' r) loc ctx ts
      else if startswith r ''-X-TARGETDURATION:'' \<noteq> None
        then Inr (loc, ctx, ts\<lparr>targetDurationSeconds := atof (after_prefix ''-X-TARGETDURATION:'' r)\<rparr>)
      else if startswith r ''-X-MEDIA-SEQUENCE:'' \<noteq> None
        then Inr (loc, ctx, ts\<lparr>nextMediaSequenceNumber := atoll (after_prefix ''-X-MEDIA-SEQUENCE:'' r)\<rparr>)
      else if startswith r ''-X-KEY:'' \<noteq> None then tag_KEY (after_prefix ''-X-KEY:'' r) loc ctx ts
      else if startswith r ''-X-PROGRAM-DATE-TIME:'' \<noteq> None
        then tag_PROGRAM_DATE_TIME (after_prefix ''-X-PROGRAM-DATE-TIME:'' r) loc ctx ts
      else if startswith r ''-X-ALLOW-CACHE:'' \<noteq> None
        then tag_ALLOW_CACHE (after_prefix ''-X-ALLOW-CACHE:'' r) loc ctx ts
      else if startswith r ''-X-PLAYLIST-TYPE:'' \<noteq> None then Inr (loc, ctx, ts)
      else if startswith r ''-X-ENDLIST'' \<noteq> None then Inr (loc, ctx\<lparr>hasEndListTag := True\<rparr>, ts)
      else if startswith r ''-X-DISCONTINUITY'' \<noteq> None then Inr (loc\<lparr>l_discontinuity := True\<rparr>, ctx, ts)
      else Inr (loc, ctx, ts))"

text \<open>
  A URI line. Either the fragment is selected and the walk returns it, or the walk goes on
  to the next line.
\<close>

datatype uri_step =
    Selected Context TrackState TrackState "(Context \<times> TrackState) list"
  | Passed Locals Context TrackState TrackState "(Context \<times> TrackState) list"

definition select_fragment :: "bool \<Rightarrow> Context \<Rightarrow> TrackState \<Rightarrow> TrackState \<Rightarrow> (Context \<times> TrackState) list \<Rightarrow> uri_step" where
  "select_fragment disc ctx ts other later =
     Selected ctx
       (ts\<lparr>discontinuity := (disc \<or> mSyncAfterDiscontinuityInProgress ts),
           mSyncAfterDiscontinuityInProgress := False\<rparr>)
       other later"

text \<open>
  The position handed to the other track: the play position, or the time of the last
  \<open>PROGRAM-DATE-TIME\<close> tag; when that tag does not parse, the \<open>timeval\<close> is read unassigned.
\<close>

definition discontinuity_position :: "Locals \<Rightarrow> real \<Rightarrow> abnormal + real" where
  "discontinuity_position loc playPosition =
     (case l_programDateTime loc of
        None \<Rightarrow> Inr playPosition
      | Some pdt \<Rightarrow>
          (case ParseTimeFromProgramDateTime pdt of
             None \<Rightarrow> Inl UninitialisedRead
           | Some tv \<Rightarrow> Inr (timeval_seconds tv)))"

definition uri_line ::
  "bool \<Rightarrow> (Context \<times> TrackState) list \<Rightarrow> Locals \<Rightarrow> Context \<Rightarrow> TrackState \<Rightarrow> TrackState
   \<Rightarrow> abnormal + uri_step" where
  "uri_line ignoreDiscontinuity later loc ctx ts0 other =
     (let ts = ts0\<lparr>nextMediaSequenceNumber := nextMediaSequenceNumber ts0 + 1\<rparr> in
      if playlistPosition ts \<ge> playTarget ts
         \<or> playTarget ts - playlistPosition ts < PLAYLIST_TIME_DIFF_THRESHOLD_SECONDS then
        (let ts1 = ts\<lparr>byteRangeOffset := l_byteRangeOffset loc,
                      byteRangeLength := l_byteRangeLength loc\<rparr> in
         if l_discontinuity loc then
           (if \<not> ignoreDiscontinuity then
              (if enabled other then
                 (let playPosition = playTarget ts1 - mCulledSeconds ts1 in
                  case discontinuity_position loc playPosition of
                    Inl e \<Rightarrow> Inl e
                  | Inr pos \<Rightarrow>
                      (case HasDiscontinuityAroundPosition later ctx other pos
                              (l_programDateTime loc \<noteq> None) playPosition of
                         Inl e \<Rightarrow> Inl e
                       | Inr (found, diff, ctx', other', later') \<Rightarrow>
                           if \<not> found then Inr (select_fragment False ctx' ts1 other' later')
                           else if l_programDateTime loc \<noteq> None
                                   \<and> diff > fragmentDurationSeconds ts1 / 2 then
                             Inr (Passed (loc\<lparr>l_discontinuity := False, l_programDateTime := None\<rparr>)
                                    ctx'
                                    (ts1\<lparr>mSyncAfterDiscontinuityInProgress := True,
                                         playTarget := playlistPosition ts1 + diff\<rparr>)
                                    other' later')
                           else Inr (select_fragment True ctx' ts1 other' later')))
               else Inr (select_fragment True ctx ts1 other later))
            else Inr (select_fragment False ctx ts1 other later))
         else Inr (select_fragment False ctx ts1 other later))
      else Inr (Passed (loc\<lparr>l_discontinuity := False, l_programDateTime := None\<rparr>) ctx ts other later))"

lemma mystrpbrk_shorter: "mystrpbrk p = (lin, Some n) \<Longrightarrow> length n < length p"
proof -
  assume a: "mystrpbrk p = (lin, Some n)"
  then have lf: "CHAR_LF \<in> set p" and n: "n = tl (dropWhile (\<lambda>c. c \<noteq> CHAR_LF) p)"
    by (auto simp: mystrpbrk_def Let_def split: if_splits)
  from lf have "dropWhile (\<lambda>c. c \<noteq> CHAR_LF) p \<noteq> []" by (simp add: dropWhile_eq_Nil_conv)
  then have "length (tl (dropWhile (\<lambda>c. c \<noteq> CHAR_LF) p)) < length (dropWhile (\<lambda>c. c \<noteq> CHAR_LF) p)"
    by (cases "dropWhile (\<lambda>c. c \<noteq> CHAR_LF) p") auto
  also have "\<dots> \<le> length p" by (rule length_dropWhile_le)
  finally show ?thesis using n by simp
qed

text \<open>
  The loop \<open>while (ptr)\<close>. The result is the returned pointer, with the shared context, this
  track, the other track, and the later states not yet seen.
\<close>

function GetNextFragmentUriFromPlaylist_loop ::
  "bool \<Rightarrow> (Context \<times> TrackState) list \<Rightarrow> Locals \<Rightarrow> string option \<Rightarrow> Context \<Rightarrow> TrackState \<Rightarrow> TrackState
   \<Rightarrow> abnormal + (string option \<times> Context \<times> TrackState \<times> TrackState \<times> (Context \<times> TrackState) list)" where
  "GetNextFragmentUriFromPlaylist_loop ignoreDiscontinuity later loc ptr ctx ts other =
     (case ptr of
        None \<Rightarrow> Inr (None, ctx, ts, other, later)
      | Some p \<Rightarrow>
          (case mystrpbrk p of (lin, nxt) \<Rightarrow>
             if lin = [] then
               GetNextFragmentUriFromPlaylist_loop ignoreDiscontinuity later loc nxt ctx ts other
             else
               (case startswith lin ''#EXT'' of
                  Some r \<Rightarrow>
                    (case tag_line r loc ctx ts of
                       Inl e \<Rightarrow> Inl e
                     | Inr (loc', ctx', ts') \<Rightarrow>
                         GetNextFragmentUriFromPlaylist_loop ignoreDiscontinuity later loc' nxt ctx' ts' other)
                | None \<Rightarrow>
                    if hd lin = CHR ''#'' then
                      GetNextFragmentUriFromPlaylist_loop ignoreDiscontinuity later loc nxt ctx ts other
                    else
                      (case uri_line ignoreDiscontinuity later loc ctx ts other of
                         Inl e \<Rightarrow> Inl e
                       | Inr (Selected ctx' ts' other' later') \<Rightarrow> Inr (Some p, ctx', ts', other', later')
                       | Inr (Passed loc' ctx' ts' other' later') \<Rightarrow>
                           GetNextFragmentUriFromPlaylist_loop ignoreDiscontinuity later' loc' nxt
                             ctx' ts' other'))))"
  by pat_completeness auto
termination
  by (relation "measure (\<lambda>(i, l, lo, ptr, c, t, ot). case ptr of None \<Rightarrow> 0 | Some p \<Rightarrow> Suc (length p))")
     (auto split: option.splits dest: mystrpbrk_shorter [OF sym])

declare GetNextFragmentUriFromPlaylist_loop.simps [simp del]

definition Locals_new :: Locals where
  "Locals_new = \<lparr> l_byteRangeLength = 0, l_byteRangeOffset = 0, l_discontinuity = False,
                  l_programDateTime = None \<rparr>"

definition GetNextFragmentUriFromPlaylist ::
  "bool \<Rightarrow> (Context \<times> TrackState) list \<Rightarrow> Context \<Rightarrow> TrackState \<Rightarrow> TrackState
   \<Rightarrow> abnormal + (string option \<times> Context \<times> TrackState \<times> TrackState \<times> (Context \<times> TrackState) list)" where
  "GetNextFragmentUriFromPlaylist ignoreDiscontinuity later ctx ts0 other =
     (let ts = (if playTarget ts0 < 0 then ts0\<lparr>playTarget := 0\<rparr> else ts0) in
      if playlistPosition ts = playTarget ts then Inr (fragmentURI ts, ctx, ts, other, later)
      else
        (case (if playlistPosition ts \<noteq> - 1 then
                 (case fragmentURI ts of
                    None \<Rightarrow> Inl NullDereference
                  | Some p \<Rightarrow> (case past_cstring p of Inl e \<Rightarrow> Inl e | Inr q \<Rightarrow> Inr (Some q)))
               else Inr (fragmentURI ts)) of
           Inl e \<Rightarrow> Inl e
         | Inr ptr \<Rightarrow>
             GetNextFragmentUriFromPlaylist_loop ignoreDiscontinuity later Locals_new ptr ctx ts other))"

subsection \<open>GetCompletionTimeForFragment\<close>

definition GetCompletionTimeForFragment :: "TrackState \<Rightarrow> int \<Rightarrow> real" where
  "GetCompletionTimeForFragment trackState mediaSequenceNumber =
     (let indexCount = int (length (index trackState)) in
      if indexCount > 0 then
        (let idx = mediaSequenceNumber - indexFirstMediaSequenceNumber trackState in
         if idx \<ge> 0 then
           completionTimeSecondsFromStart
             (index trackState ! nat (if idx \<ge> indexCount then indexCount - 1 else idx))
         else 0)
      else 0)"

subsection \<open>TrackState::FlushIndex and TrackState::IndexPlaylist\<close>

definition FlushIndex :: "TrackState \<Rightarrow> TrackState" where
  "FlushIndex ts =
     ts\<lparr>index := [], indexFirstMediaSequenceNumber := 0, currentIdx := - 1,
        mDrmKeyTagCount := 0, mDiscontinuityIndex := [],
        mDrmMetaDataIndex := [],
        mDrmMetaDataIndexPosition := (if mDrmMetaDataIndex ts \<noteq> [] then 0 else mDrmMetaDataIndexPosition ts),
        mInitFragmentInfo := None\<rparr>"

text \<open>A pointer moved forward by \<open>n\<close> bytes, which must not carry it behind the terminator.\<close>

definition advance :: "nat \<Rightarrow> string \<Rightarrow> abnormal + string" where
  "advance n p = (if n \<le> length p then Inr (drop n p) else Inl OutOfBoundsRead)"

text \<open>The text of a line from a pointer into it: up to the LF, less a CR in front of the LF.\<close>

definition line_at :: "string \<Rightarrow> string" where
  "line_at p = fst (mystrpbrk p)"

lemma strstr_length: "strstr p needle = Some q \<Longrightarrow> length q \<le> length p"
  by (induction p needle arbitrary: q rule: strstr.induct) (auto split: if_splits intro: le_SucI)

text \<open>
  The \<open>do ... while (ptr)\<close> loop that collects the \<open>#EXT-X-FAXS-CM:\<close> payloads. The base64
  decoding and the SHA-1 hash of a payload are not modelled.
\<close>

function collect_FAXS_CM :: "string \<Rightarrow> string list" where
  "collect_FAXS_CM p =
     (case strstr p ''#EXT-X-FAXS-CM:'' of
        None \<Rightarrow> []
      | Some q \<Rightarrow>
          line_at (after_prefix ''#EXT-X-FAXS-CM:'' q)
            # (case snd (mystrpbrk q) of None \<Rightarrow> [] | Some nxt \<Rightarrow> collect_FAXS_CM nxt))"
  by pat_completeness auto
termination
proof (relation "measure length", goal_cases)
  case 1
  show ?case by simp
next
  case (2 p q nxt)
  from 2 have "strstr p ''#EXT-X-FAXS-CM:'' = Some q" by simp
  then have "length q \<le> length p" by (rule strstr_length)
  moreover from 2 have "mystrpbrk q = (fst (mystrpbrk q), Some nxt)" by (simp add: prod_eq_iff)
  then have "length nxt < length q" by (rule mystrpbrk_shorter)
  ultimately show ?case by simp
qed

declare collect_FAXS_CM.simps [simp del]

text \<open>
  The first part of \<open>IndexPlaylist\<close> for a buffer that begins with \<open>#EXTM3U\<close>: media
  sequence number, target duration, init fragment, DRM metadata, playlist type.
\<close>

definition index_header :: "string \<Rightarrow> Context \<Rightarrow> TrackState \<Rightarrow> Context \<times> TrackState" where
  "index_header buf ctx ts =
     (let ts1 = ts\<lparr>indexFirstMediaSequenceNumber :=
                    (case strstr buf ''#EXT-X-MEDIA-SEQUENCE:'' of
                       Some q \<Rightarrow> atoll (after_prefix ''#EXT-X-MEDIA-SEQUENCE:'' q)
                     | None \<Rightarrow> 0)\<rparr>;
          ts2 = (case strstr buf ''#EXT-X-TARGETDURATION:'' of
                   Some q \<Rightarrow> ts1\<lparr>targetDurationSeconds := atof (after_prefix ''#EXT-X-TARGETDURATION:'' q)\<rparr>
                 | None \<Rightarrow> ts1);
          ts3 = (case strstr buf ''#EXT-X-MAP:'' of
                   Some q \<Rightarrow> ts2\<lparr>mInitFragmentInfo := Some (after_prefix ''#EXT-X-MAP:'' q)\<rparr>
                 | None \<Rightarrow> ts2);
          ts4 = ts3\<lparr>mDrmMetaDataIndex := mDrmMetaDataIndex ts3 @ collect_FAXS_CM buf\<rparr>;
          ctx1 = (case strstr buf ''#EXT-X-PLAYLIST-TYPE:'' of
                    Some q \<Rightarrow>
                      (let v = after_prefix ''#EXT-X-PLAYLIST-TYPE:'' q in
                       if startswith v ''VOD'' \<noteq> None then ctx\<lparr>playlistType := ePLAYLISTTYPE_VOD\<rparr>
                       else if startswith v ''EVENT'' \<noteq> None then ctx\<lparr>playlistType := ePLAYLISTTYPE_EVENT\<rparr>
                       else ctx\<lparr>calls := calls ctx @ [aamp_Error ''unknown PLAYLIST-TYPE'']\<rparr>)
                  | None \<Rightarrow> ctx);
          ctx2 = (if playlistType ctx1 \<noteq> ePLAYLISTTYPE_VOD
                     \<and> strstr buf ''#EXT-X-ENDLIST'' \<noteq> None
                  then ctx1\<lparr>playlistType := ePLAYLISTTYPE_VOD\<rparr> else ctx1);
          ctx3 = ctx2\<lparr>IsLive := (playlistType ctx2 \<noteq> ePLAYLISTTYPE_VOD),
                      mEnableCache := (playlistType ctx2 = ePLAYLISTTYPE_VOD)\<rparr>;
          ctx4 = (if mEnableCache ctx3 then ctx3\<lparr>calls := calls ctx3 @ [InsertToPlaylistCache buf]\<rparr>
                  else ctx3)
      in (ctx4, ts4))"

text \<open>The local variables of the loop that builds the index.\<close>

record IndexLocals =
  i_totalDuration :: real
  i_drmMetadataIdx :: int
  i_programDateTimeIdxOfFragment :: "string option"
  i_discontinuity :: bool

text \<open>
  One \<open>#EXT\<close> tag of the loop; \<open>p\<close> points at the tag. The result holds the pointer from
  which the search for the next tag goes on. The branches for the deferred licence tag
  \<open>#EXT-X-X1-LIN-CK\<close> and for subscribed tags touch neither the index nor the playlist
  type and are left out.
\<close>

definition index_tag ::
  "string \<Rightarrow> IndexLocals \<Rightarrow> Context \<Rightarrow> TrackState
   \<Rightarrow> abnormal + (string \<times> IndexLocals \<times> Context \<times> TrackState)" where
  "index_tag p loc ctx ts =
     (let r = drop 4 p in
      if startswith r ''INF:'' \<noteq> None then
        (let ts1 = (if i_discontinuity loc then
                      ts\<lparr>mDiscontinuityIndex := mDiscontinuityIndex ts @
                            [\<lparr>fragmentIdx = int (length (index ts)),
                              position = i_totalDuration loc,
                              programDateTime = i_programDateTimeIdxOfFragment loc\<rparr>]\<rparr>
                    else ts);
             total = i_totalDuration loc + atof (drop 8 p);
             node = \<lparr>completionTimeSecondsFromStart = total, pFragmentInfo = p,
                     drmMetadataIdx = i_drmMetadataIdx loc\<rparr>
         in case advance 12 p of
              Inl e \<Rightarrow> Inl e
            | Inr q \<Rightarrow>
                Inr (q, loc\<lparr>i_totalDuration := total, i_programDateTimeIdxOfFragment := None,
                            i_discontinuity := False\<rparr>,
                     ctx, ts1\<lparr>index := index ts1 @ [node]\<rparr>))
      else if startswith r ''-X-DISCONTINUITY'' \<noteq> None then
        (case advance 4 p of
           Inl e \<Rightarrow> Inl e
         | Inr q \<Rightarrow>
             Inr (q, (if i_totalDuration loc \<noteq> 0 then loc\<lparr>i_discontinuity := True\<rparr> else loc), ctx, ts))
      else if startswith r ''-X-PROGRAM-DATE-TIME:'' \<noteq> None then
        (case advance 4 p of
           Inl e \<Rightarrow> Inl e
         | Inr q \<Rightarrow> Inr (q, loc\<lparr>i_programDateTimeIdxOfFragment := Some (drop 25 p)\<rparr>, ctx, ts))
      else if startswith r ''-X-KEY:'' \<noteq> None then
        (case ParseAttrList_key (takeWhile (\<lambda>c. c \<noteq> CHAR_LF) (drop 11 p)) ctx ts of
           Inl e \<Rightarrow> Inl e
         | Inr (ctx', ts') \<Rightarrow>
             (case advance 15 p of
                Inl e \<Rightarrow> Inl e
              | Inr q \<Rightarrow>
                  Inr (q,
                       loc\<lparr>i_drmMetadataIdx :=
                             (if fragmentEncrypted ts' then mDrmMetaDataIndexPosition ts' else - 1)\<rparr>,
                       ctx', ts'\<lparr>mDrmKeyTagCount := mDrmKeyTagCount ts' + 1\<rparr>)))
      else
        (case advance 4 p of
           Inl e \<Rightarrow> Inl e
         | Inr q \<Rightarrow> Inr (q, loc, ctx, ts)))"

lemma advance_length: "advance n p = Inr q \<Longrightarrow> length q = length p - n \<and> n \<le> length p"
  by (auto simp: advance_def split: if_splits)

lemma index_tag_shorter:
  "index_tag p loc ctx ts = Inr (q, loc', ctx', ts') \<Longrightarrow> length q < length p"
  by (auto simp: index_tag_def Let_def split: if_splits sum.splits dest!: advance_length)

function build_index ::
  "string \<Rightarrow> IndexLocals \<Rightarrow> Context \<Rightarrow> TrackState \<Rightarrow> abnormal + (IndexLocals \<times> Context \<times> TrackState)" where
  "build_index ptr loc ctx ts =
     (case strstr ptr ''#EXT'' of
        None \<Rightarrow> Inr (loc, ctx, ts)
      | Some p \<Rightarrow>
          (case index_tag p loc ctx ts of
             Inl e \<Rightarrow> Inl e
           | Inr (q, loc', ctx', ts') \<Rightarrow> build_index q loc' ctx' ts'))"
  by pat_completeness auto
termination
proof (relation "measure (\<lambda>(ptr, loc, ctx, ts). length ptr)", goal_cases)
  case 1
  show ?case by simp
next
  case (2 ptr loc ctx ts p x q y loc' z ctx' ts')
  then have "strstr ptr ''#EXT'' = Some p" and "index_tag p loc ctx ts = Inr (q, loc', ctx', ts')"
    by simp_all
  then have "length p \<le> length ptr" and "length q < length p"
    by (auto dest: strstr_length index_tag_shorter)
  then show ?case by simp
qed

declare build_index.simps [simp del]

definition IndexLocals_new :: IndexLocals where
  "IndexLocals_new = \<lparr> i_totalDuration = 0, i_drmMetadataIdx = - 1,
                       i_programDateTimeIdxOfFragment = None, i_discontinuity = False \<rparr>"

text \<open>
  \<open>IndexPlaylist\<close>. After the index is built, the total duration is reported for the video
  track and stored in \<open>mDuration\<close>.
\<close>

definition IndexPlaylist :: "Context \<Rightarrow> TrackState \<Rightarrow> abnormal + (Context \<times> TrackState)" where
  "IndexPlaylist ctx ts0 =
     (let ts = (FlushIndex ts0)\<lparr>mIndexingInProgress := True\<rparr> in
      if playlist ts \<noteq> None \<and> take 7 (the (playlist ts)) \<noteq> ''#EXTM3U'' then
        Inr (ctx\<lparr>calls := calls ctx @ [SendErrorEvent AAMP_TUNE_INVALID_MANIFEST_FAILURE]\<rparr>,
             ts\<lparr>mDuration := 0\<rparr>)
      else
        (case (case playlist ts of
                 None \<Rightarrow> Inr (IndexLocals_new, ctx, ts)
               | Some buf \<Rightarrow>
                   (case index_header buf ctx ts of (ctx1, ts1) \<Rightarrow>
                      build_index buf IndexLocals_new ctx1 ts1)) of
           Inl e \<Rightarrow> Inl e
         | Inr (loc, ctx2, ts2) \<Rightarrow>
             Inr ((if track_type ts2 = eTRACK_VIDEO
                   then ctx2\<lparr>calls := calls ctx2 @ [UpdateDuration (i_totalDuration loc)]\<rparr>
                   else ctx2),
                  ts2\<lparr>firstIndexDone := True, mIndexingInProgress := False,
                      mDuration := i_totalDuration loc\<rparr>)))"

subsection \<open>TrackState::FindMediaForSequenceNumber\<close>

text \<open>
  The loop over the lines of the new playlist; \<open>sq\<close> is the local \<open>seq\<close>, \<open>key\<close> the last
  \<open>#EXT-X-KEY:\<close> line. The result is the returned pointer.
\<close>

function FindMediaForSequenceNumber_loop ::
  "int \<Rightarrow> int \<Rightarrow> string option \<Rightarrow> string option \<Rightarrow> Context \<Rightarrow> TrackState
   \<Rightarrow> abnormal + (string option \<times> Context \<times> TrackState)" where
  "FindMediaForSequenceNumber_loop mediaSequenceNumber sq key ptr ctx ts =
     (case ptr of
        None \<Rightarrow> Inr (None, ctx, ts)
      | Some p \<Rightarrow>
          (case mystrpbrk p of (lin, nxt) \<Rightarrow>
             if lin = [] then FindMediaForSequenceNumber_loop mediaSequenceNumber sq key nxt ctx ts
             else if startswith lin ''#EXTINF:'' \<noteq> None then
               FindMediaForSequenceNumber_loop mediaSequenceNumber sq key nxt ctx
                 (ts\<lparr>fragmentDurationSeconds := atof (after_prefix ''#EXTINF:'' lin)\<rparr>)
             else if startswith lin ''#EXT-X-MEDIA-SEQUENCE:'' \<noteq> None then
               FindMediaForSequenceNumber_loop mediaSequenceNumber
                 (atoll (after_prefix ''#EXT-X-MEDIA-SEQUENCE:'' lin)) key nxt ctx ts
             else if startswith lin ''#EXT-X-KEY:'' \<noteq> None then
               FindMediaForSequenceNumber_loop mediaSequenceNumber sq
                 (Some (after_prefix ''#EXT-X-KEY:'' lin)) nxt ctx ts
             else if hd lin \<noteq> CHR ''#'' then
               (if sq \<ge> mediaSequenceNumber then
                  (case (if mDrmKeyTagCount ts > 1 \<and> key \<noteq> None
                         then ParseAttrList_key (the key) ctx ts else Inr (ctx, ts)) of
                     Inl e \<Rightarrow> Inl e
                   | Inr (ctx', ts') \<Rightarrow>
                       Inr (Some p, ctx',
                            (if sq \<noteq> mediaSequenceNumber
                             then ts'\<lparr>nextMediaSequenceNumber := sq + 1\<rparr> else ts')))
                else FindMediaForSequenceNumber_loop mediaSequenceNumber (sq + 1) key nxt ctx ts)
             else FindMediaForSequenceNumber_loop mediaSequenceNumber sq key nxt ctx ts))"
  by pat_completeness auto
termination
  by (relation "measure (\<lambda>(m, s, k, ptr, c, t). case ptr of None \<Rightarrow> 0 | Some p \<Rightarrow> Suc (length p))")
     (auto split: option.splits dest: mystrpbrk_shorter [OF sym])

declare FindMediaForSequenceNumber_loop.simps [simp del]

definition FindMediaForSequenceNumber :: "Context \<Rightarrow> TrackState \<Rightarrow> abnormal + (string option \<times> Context \<times> TrackState)" where
  "FindMediaForSequenceNumber ctx ts =
     FindMediaForSequenceNumber_loop (nextMediaSequenceNumber ts - 1) 0 None (playlist ts) ctx ts"

subsection \<open>TrackState::RefreshPlaylist\<close>

text \<open>Error codes of libcurl.\<close>

definition CURLE_COULDNT_CONNECT :: int where "CURLE_COULDNT_CONNECT = 7"
definition CURLE_OPERATION_TIMEDOUT :: int where "CURLE_OPERATION_TIMEDOUT = 28"

text \<open>
  \<open>RefreshPlaylist\<close>, given the clock and what \<open>aamp->GetFile\<close> delivers: the bytes of the
  playlist (none when the download fails) and the error code. The old buffer is set aside
  in \<open>tempBuff\<close> and the track's buffer cleared before the download; a download that
  delivers no bytes leaves the cleared buffer as it is.
\<close>

definition RefreshPlaylist :: "int \<Rightarrow> string \<Rightarrow> int \<Rightarrow> Context \<Rightarrow> TrackState \<Rightarrow> abnormal + (Context \<times> TrackState)" where
  "RefreshPlaylist now downloaded http_error ctx ts0 =
     (let commonPlayPosition = nextMediaSequenceNumber ts0 - 1;
          prevSecondsBeforePlayPoint = GetCompletionTimeForFragment ts0 commonPlayPosition;
          tempBuff = playlist ts0;
          ts = ts0\<lparr>lastPlaylistDownloadTimeMS := now,
                   playlist := (if downloaded \<noteq> [] then Some downloaded else None)\<rparr>;
          culling = (\<lambda>ctx' ts'.
             (let newSecondsBeforePlayPoint = GetCompletionTimeForFragment ts' commonPlayPosition;
                  culled = prevSecondsBeforePlayPoint - newSecondsBeforePlayPoint
              in ((if track_type ts' = eTRACK_VIDEO
                   then ctx'\<lparr>calls := calls ctx' @ [UpdateCullingState culled]\<rparr> else ctx'),
                  ts'\<lparr>mCulledSeconds := mCulledSeconds ts' + culled\<rparr>)))
      in
      if (case playlist ts of None \<Rightarrow> False | Some b \<Rightarrow> b \<noteq> []) then
        (let ctx1 = ctx\<lparr>mNetworkDownDetected := False\<rparr>;
             ts1 = ts in
         case IndexPlaylist ctx1 ts1 of
           Inl e \<Rightarrow> Inl e
         | Inr (ctx2, ts2) \<Rightarrow>
             (if mDuration ts2 > 0 then
                (if playlistType ctx2 \<noteq> ePLAYLISTTYPE_VOD then
                   (case FindMediaForSequenceNumber ctx2 ts2 of
                      Inl e \<Rightarrow> Inl e
                    | Inr (uri, ctx3, ts3) \<Rightarrow>
                        Inr (culling ctx3 (ts3\<lparr>fragmentURI := uri, manifestDLFailCount := 0\<rparr>)))
                 else
                   Inr (culling ctx2 (ts2\<lparr>fragmentURI := playlist ts2, playlistPosition := - 1,
                                          manifestDLFailCount := 0\<rparr>)))
              else Inr (culling ctx2 ts2)))
      else
        (let ctx1 = (if tempBuff \<noteq> None \<and> refreshPlaylist ts
                     then ctx\<lparr>currentProfileIndex := lastSelectedProfileIndex ctx\<rparr> else ctx);
             ts1 = (if tempBuff \<noteq> None then ts\<lparr>playlist := tempBuff\<rparr> else ts) in
         if DownloadsAreEnabled ctx1 then
           (if http_error = CURLE_OPERATION_TIMEDOUT \<or> http_error = CURLE_COULDNT_CONNECT then
              Inr (ctx1\<lparr>mNetworkDownDetected := True\<rparr>, ts1)
            else
              (let ts2 = ts1\<lparr>manifestDLFailCount := manifestDLFailCount ts1 + 1\<rparr> in
               if fragmentURI ts2 = None \<and> manifestDLFailCount ts2 > MAX_MANIFEST_DOWNLOAD_RETRY then
                 Inr (ctx1\<lparr>calls := calls ctx1 @
                              [SendDownloadErrorEvent AAMP_TUNE_MANIFEST_REQ_FAILED http_error]\<rparr>, ts2)
               else Inr (culling ctx1 ts2)))
         else Inr (culling ctx1 ts1)))"

subsection \<open>TrackState::GetFragmentUriFromIndex\<close>

text \<open>The two \<open>for\<close> loops over the index, from \<open>idx\<close> on; the result is the index found.\<close>

function search_forward :: "IndexNode list \<Rightarrow> real \<Rightarrow> int \<Rightarrow> abnormal + int option" where
  "search_forward ix target idx =
     (if idx < int (length ix) then
        (if idx < 0 then Inl OutOfBoundsRead
         else if completionTimeSecondsFromStart (ix ! nat idx) \<ge> target then Inr (Some idx)
         else search_forward ix target (idx + 1))
      else Inr None)"
  by pat_completeness auto
termination
  by (relation "measure (\<lambda>(ix, target, idx). nat (int (length ix) - idx))") auto

declare search_forward.simps [simp del]

function search_backward :: "IndexNode list \<Rightarrow> real \<Rightarrow> int \<Rightarrow> abnormal + int option" where
  "search_backward ix target idx =
     (if idx \<ge> 0 then
        (if idx \<ge> int (length ix) then Inl OutOfBoundsRead
         else if completionTimeSecondsFromStart (ix ! nat idx) \<le> target then Inr (Some idx)
         else search_backward ix target (idx - 1))
      else Inr None)"
  by pat_completeness auto
termination
  by (relation "measure (\<lambda>(ix, target, idx). nat (idx + 1))") auto

declare search_backward.simps [simp del]

text \<open>
  The walk over the tag lines of the fragment to its URI line, with the byte range when a
  \<open>#EXT-X-BYTERANGE:\<close> tag is among them. The scan for the end of a line has no test for
  the terminator. The source asserts that a byte-range line is shorter than 1024 bytes; the
  bytes of \<open>temp\<close> behind the copied ones are taken to hold no \<open>@\<close>.
\<close>

definition index_byterange :: "string \<Rightarrow> int \<Rightarrow> int \<times> int" where
  "index_byterange p off =
     (let len = length (takeWhile (\<lambda>c. c \<noteq> CHAR_LF) p);
          temp = take len (drop 17 p)
      in ((if CHR ''@'' \<in> set temp then atoll (tl (dropWhile (\<lambda>c. c \<noteq> CHR ''@'') temp)) else off),
          atoll (takeWhile (\<lambda>c. c \<noteq> CHR ''@'') temp)))"

function fragment_info_uri :: "string \<Rightarrow> int \<times> int \<Rightarrow> abnormal + (string option \<times> int \<times> int)" where
  "fragment_info_uri p br =
     (if p \<noteq> [] \<and> hd p = CHR ''#'' then
        (let br' = (if startswith p ''#EXT-X-BYTERANGE:'' \<noteq> None
                    then index_byterange p (fst br) else br) in
         case snd (mystrpbrk p) of
           None \<Rightarrow> Inl OutOfBoundsRead
         | Some nxt \<Rightarrow> fragment_info_uri nxt br')
      else
        (if CHAR_LF \<in> set p then Inr (Some (line_at p), br) else Inr (None, br)))"
  by pat_completeness auto
termination
proof (relation "measure (\<lambda>(p, br). length p)", goal_cases)
  case 1
  show ?case by simp
next
  case (2 p br br' nxt)
  then have "mystrpbrk p = (fst (mystrpbrk p), Some nxt)" by (simp add: prod_eq_iff)
  then have "length nxt < length p" by (rule mystrpbrk_shorter)
  then show ?case by simp
qed

declare fragment_info_uri.simps [simp del]

definition found_node :: "int option \<Rightarrow> TrackState \<Rightarrow> abnormal + (string option \<times> TrackState)" where
  "found_node r ts =
     (case r of
        None \<Rightarrow> Inr (None, ts)
      | Some idx \<Rightarrow>
          (let node = index ts ! nat idx;
               ts1 = ts\<lparr>currentIdx := idx,
                        fragmentDurationSeconds :=
                          completionTimeSecondsFromStart node
                            - (if idx > 0 then completionTimeSecondsFromStart (index ts ! nat (idx - 1)) else 0)\<rparr>
           in case fragment_info_uri (pFragmentInfo node) (0, 0) of
                Inl e \<Rightarrow> Inl e
              | Inr (uri, off, len) \<Rightarrow>
                  Inr (uri,
                       ts1\<lparr>byteRangeOffset := off, byteRangeLength := len,
                           fragmentEncrypted := (drmMetadataIdx node \<noteq> - 1),
                           mDrmMetaDataIndexPosition :=
                             (if drmMetadataIdx node \<noteq> - 1 then drmMetadataIdx node
                              else mDrmMetaDataIndexPosition ts1)\<rparr>)))"

definition GetFragmentUriFromIndex :: "Context \<Rightarrow> TrackState \<Rightarrow> abnormal + (string option \<times> TrackState)" where
  "GetFragmentUriFromIndex ctx ts =
     (if rate ctx > 0 then
        (if index ts = [] then Inl OutOfBoundsRead
         else
           (let seekWindowEnd = completionTimeSecondsFromStart (last (index ts)) - mLiveOffset ctx in
            if IsLive ctx \<and> playTarget ts > seekWindowEnd then Inr (None, ts)
            else
              (let ts1 = (if currentIdx ts = - 1 then ts\<lparr>currentIdx := 0\<rparr> else ts) in
               case search_forward (index ts1) (playTarget ts1) (currentIdx ts1) of
                 Inl e \<Rightarrow> Inl e
               | Inr r \<Rightarrow> found_node r ts1)))
      else
        (let ts1 = (if currentIdx ts = - 1 then ts\<lparr>currentIdx := int (length (index ts)) - 1\<rparr> else ts) in
         case search_backward (index ts1) (playTarget ts1) (currentIdx ts1) of
           Inl e \<Rightarrow> Inl e
         | Inr r \<Rightarrow> found_node r ts1))"

subsection \<open>TrackState::FetchFragmentHelper and TrackState::FetchFragment\<close>

datatype DrmReturn = eDRM_SUCCESS | eDRM_ERROR | eDRM_KEY_ACQUSITION_TIMEOUT

text \<open>
  What one fetch gets from its collaborators: whether a free slot in the ring became
  available, the result of \<open>aamp->GetFile\<close> with the error code and the length of the
  data, whether the slot's buffer pointer is set afterwards, the result of \<open>DrmDecrypt\<close>,
  and the answer of \<open>CheckForRampDownProfile\<close>. The two failure thresholds are constants
  of a header that is not part of the source file.
\<close>

record FetchIO =
  io_free_fragment :: bool
  io_fetched :: bool
  io_http_error :: int
  io_fragment_len :: nat
  io_fragment_ptr :: bool
  io_drm :: DrmReturn
  io_ramp_down :: bool
  MAX_SEG_DOWNLOAD_FAIL_COUNT :: int
  MAX_SEG_DRM_DECRYPT_FAIL_COUNT :: int

text \<open>The trick-play branch of \<open>FetchFragmentHelper\<close>, after the index lookup.\<close>

definition trickplay_step :: "Context \<Rightarrow> string option \<Rightarrow> TrackState \<Rightarrow> TrackState" where
  "trickplay_step ctx uri ts0 =
     (let ts = ts0\<lparr>fragmentURI := uri\<rparr>;
          delta = rate ctx / mTrickPlayFPS ctx in
      if rate ctx < 0 then
        (if fragmentURI ts = None \<or> playTarget ts = 0 then ts\<lparr>eosReached := True\<rparr>
         else if playTarget ts > - delta then ts\<lparr>playTarget := playTarget ts + delta\<rparr>
         else ts\<lparr>playTarget := 0\<rparr>)
      else
        (let ts1 = (if fragmentURI ts = None then ts\<lparr>eosReached := True\<rparr> else ts)
         in ts1\<lparr>playTarget := playTarget ts1 + delta\<rparr>))"

text \<open>The normal-speed branch, after the walk of the playlist.\<close>

definition normalplay_step :: "Context \<Rightarrow> string option \<Rightarrow> TrackState \<Rightarrow> Context \<times> TrackState" where
  "normalplay_step ctx uri ts0 =
     (let ts = ts0\<lparr>fragmentURI := uri\<rparr> in
      if fragmentURI ts \<noteq> None then
        ((if IsLive ctx then ctx\<lparr>calls := calls ctx @ [CheckForPlaybackStall True]\<rparr> else ctx),
         ts\<lparr>playTarget := playlistPosition ts + fragmentDurationSeconds ts\<rparr>)
      else if (playlistType ctx = ePLAYLISTTYPE_VOD \<or> hasEndListTag ctx) \<and> playlistPosition ts \<noteq> - 1
        then (ctx, ts\<lparr>eosReached := True\<rparr>)
      else if IsLive ctx \<and> track_type ts = eTRACK_VIDEO
        then (ctx\<lparr>calls := calls ctx @ [CheckForPlaybackStall False]\<rparr>, ts)
      else (ctx, ts))"

text \<open>
  The download and the decryption of the selected fragment: the return value, the output
  parameter \<open>decryption_error\<close>, and the state.
\<close>

definition download_and_decrypt :: "FetchIO \<Rightarrow> Context \<Rightarrow> TrackState \<Rightarrow> bool \<times> bool \<times> Context \<times> TrackState" where
  "download_and_decrypt io ctx ts =
     (if fragmentURI ts \<noteq> None then
        (if \<not> io_fetched io then
           (let ts1 = ts\<lparr>segDLFailCount := segDLFailCount ts + 1\<rparr> in
            (False, False,
             (if MAX_SEG_DOWNLOAD_FAIL_COUNT io \<le> segDLFailCount ts1 \<and> DownloadsAreEnabled ctx
              then ctx\<lparr>calls := calls ctx @
                          [SendDownloadErrorEvent AAMP_TUNE_FRAGMENT_DOWNLOAD_FAILURE (io_http_error io)]\<rparr>
              else ctx),
             ts1))
         else
           (let ts1 = ts\<lparr>segDLFailCount := 0\<rparr> in
            if io_fragment_len io \<noteq> 0 \<and> fragmentEncrypted ts1 then
              (if io_drm io \<noteq> eDRM_SUCCESS then
                 (if DownloadsAreEnabled ctx then
                    (if io_drm io = eDRM_KEY_ACQUSITION_TIMEOUT then
                       (False, True,
                        ctx\<lparr>calls := calls ctx @ [SendErrorEvent AAMP_TUNE_LICENCE_TIMEOUT]\<rparr>, ts1)
                     else
                       (let ts2 = ts1\<lparr>segDrmDecryptFailCount := segDrmDecryptFailCount ts1 + 1\<rparr> in
                        if MAX_SEG_DRM_DECRYPT_FAIL_COUNT io \<le> segDrmDecryptFailCount ts2 then
                          (False, True,
                           ctx\<lparr>calls := calls ctx @ [SendErrorEvent AAMP_TUNE_DRM_DECRYPT_FAILED]\<rparr>, ts2)
                        else (False, False, ctx, ts2)))
                  else (False, False, ctx, ts1))
               else
                 (True, False,
                  (if \<not> firstFragmentDecrypted ctx
                   then ctx\<lparr>calls := calls ctx @ [NotifyFirstFragmentDecrypted],
                            firstFragmentDecrypted := True\<rparr>
                   else ctx),
                  ts1\<lparr>segDrmDecryptFailCount := 0\<rparr>))
            else (True, False, ctx, ts1)))
      else (False, False, ctx, ts))"

definition FetchFragmentHelper ::
  "(Context \<times> TrackState) list \<Rightarrow> FetchIO \<Rightarrow> Context \<Rightarrow> TrackState \<Rightarrow> TrackState
   \<Rightarrow> abnormal + (bool \<times> bool \<times> Context \<times> TrackState \<times> TrackState \<times> (Context \<times> TrackState) list)" where
  "FetchFragmentHelper later io ctx ts other =
     (if fragmentURI ts = None then Inl AssertionFailure
      else if trickplayMode ctx \<and> iframeTrackValid ctx then
        (case GetFragmentUriFromIndex ctx ts of
           Inl e \<Rightarrow> Inl e
         | Inr (uri, ts1) \<Rightarrow>
             (case download_and_decrypt io ctx (trickplay_step ctx uri ts1) of
                (ok, decryption_error, ctx', ts') \<Rightarrow>
                  Inr (ok, decryption_error, ctx', ts', other, later)))
      else
        (case GetNextFragmentUriFromPlaylist False later ctx ts other of
           Inl e \<Rightarrow> Inl e
         | Inr (uri, ctx1, ts1, other1, later1) \<Rightarrow>
             (case normalplay_step ctx1 uri ts1 of
                (ctx2, ts2) \<Rightarrow>
                  (case download_and_decrypt io ctx2 ts2 of
                     (ok, decryption_error, ctx', ts') \<Rightarrow>
                       Inr (ok, decryption_error, ctx', ts', other1, later1)))))"

text \<open>What \<open>FetchFragment\<close> writes into the slot of the ring.\<close>

record CachedFragment =
  cf_position :: real
  cf_duration :: real
  cf_discontinuity :: bool

definition stage_fragment :: "Context \<Rightarrow> TrackState \<Rightarrow> CachedFragment" where
  "stage_fragment ctx ts =
     (let pos0 = playTarget ts - playTargetOffset ts;
          normal = (rate ctx = AAMP_NORMAL_PLAY_RATE);
          dur = fragmentDurationSeconds ts
      in \<lparr> cf_position = (if normal then pos0 - fragmentDurationSeconds ts
                           else pos0 - rate ctx / mTrickPlayFPS ctx),
           cf_duration = (if trickplayMode ctx \<and> rate ctx \<noteq> 0
                           then real_of_int (c_trunc (dur * rate ctx / mTrickPlayFPS ctx)) else dur),
           cf_discontinuity = (if normal then discontinuity ts else True) \<rparr>)"

text \<open>
  \<open>FetchFragment\<close>: the fragment staged, if any, and the state. Nothing is staged when no
  slot became free, when the helper fails, or when the slot's buffer pointer is not set.
\<close>

definition FetchFragment ::
  "(Context \<times> TrackState) list \<Rightarrow> FetchIO \<Rightarrow> Context \<Rightarrow> TrackState \<Rightarrow> TrackState
   \<Rightarrow> abnormal + (CachedFragment option \<times> Context \<times> TrackState \<times> TrackState \<times> (Context \<times> TrackState) list)" where
  "FetchFragment later io ctx0 ts other =
     (if \<not> io_free_fragment io then Inr (None, ctx0, ts, other, later)
      else
        (let ctx = ctx0\<lparr>mCheckForRampdown := False\<rparr> in
         case FetchFragmentHelper later io ctx ts other of
           Inl e \<Rightarrow> Inl e
         | Inr (ok, decryption_error, ctx1, ts1, other1, later1) \<Rightarrow>
             if \<not> ok then
               (if fragmentURI ts1 \<noteq> None then
                  (let ctx2 = ctx1\<lparr>lastSelectedProfileIndex := currentProfileIndex ctx1\<rparr> in
                   if track_type ts1 = eTRACK_VIDEO \<and> io_ramp_down io then
                     Inr (None, ctx2\<lparr>mCheckForRampdown := True\<rparr>,
                          ts1\<lparr>playTarget :=
                                (if rate ctx2 = AAMP_NORMAL_PLAY_RATE
                                 then playTarget ts1 - fragmentDurationSeconds ts1
                                 else playTarget ts1 - rate ctx2 / mTrickPlayFPS ctx2)\<rparr>,
                          other1, later1)
                   else Inr (None, ctx2, ts1, other1, later1))
                else Inr (None, ctx1, ts1, other1, later1))
             else
               Inr ((if io_fragment_ptr io then Some (stage_fragment ctx1 ts1) else None),
                    ctx1, ts1, other1, later1)))"

subsection \<open>StreamAbstractionAAMP\_HLS::SyncTracks\<close>

datatype AAMPStatusType = eAAMPSTATUS_OK | eAAMPSTATUS_TRACKS_SYNCHRONISATION_ERROR

text \<open>
  The body of the first loop for one track: the playlist is walked to the first fragment
  and the play target set to its start. The other track is not consulted, the walk being
  told to ignore discontinuities.
\<close>

definition SyncTracks_first ::
  "Context \<Rightarrow> TrackState \<Rightarrow> TrackState \<Rightarrow> abnormal + (Context \<times> TrackState)" where
  "SyncTracks_first ctx ts other =
     (case GetNextFragmentUriFromPlaylist True [] ctx ts other of
        Inl e \<Rightarrow> Inl e
      | Inr (uri, ctx', ts', other', later') \<Rightarrow>
          Inr (ctx', ts'\<lparr>fragmentURI := uri, playTarget := playlistPosition ts'\<rparr>))"

text \<open>One pass of the loop \<open>while (diff > 0)\<close> over the lagging track.\<close>

definition advance_fragment :: "TrackState \<Rightarrow> TrackState" where
  "advance_fragment laggingTS =
     laggingTS\<lparr>playTarget := playTarget laggingTS + fragmentDurationSeconds laggingTS,
               playTargetOffset := playTargetOffset laggingTS + fragmentDurationSeconds laggingTS\<rparr>"

definition lag_step :: "Context \<Rightarrow> TrackState \<Rightarrow> TrackState \<Rightarrow> abnormal + (Context \<times> TrackState)" where
  "lag_step ctx laggingTS0 other =
     (let laggingTS = advance_fragment laggingTS0 in
      if fragmentURI laggingTS \<noteq> None then
        (case GetNextFragmentUriFromPlaylist True [] ctx laggingTS other of
           Inl e \<Rightarrow> Inl e
         | Inr (uri, ctx', ts', other', later') \<Rightarrow> Inr (ctx', ts'\<lparr>fragmentURI := uri\<rparr>))
      else Inr (ctx, laggingTS))"

text \<open>The loop, with the number of passes made.\<close>

function lag_loop :: "int \<Rightarrow> nat \<Rightarrow> Context \<Rightarrow> TrackState \<Rightarrow> TrackState \<Rightarrow> abnormal + (nat \<times> Context \<times> TrackState)" where
  "lag_loop diff passes ctx laggingTS other =
     (if diff > 0 then
        (case lag_step ctx laggingTS other of
           Inl e \<Rightarrow> Inl e
         | Inr (ctx', laggingTS') \<Rightarrow> lag_loop (diff - 1) (Suc passes) ctx' laggingTS' other)
      else Inr (passes, ctx, laggingTS))"
  by pat_completeness auto
termination
  by (relation "measure (\<lambda>(diff, passes, ctx, l, ot). nat diff)") auto

declare lag_loop.simps [simp del]

text \<open>
  The synchronisation by sequence number, entered when the start time is not available or
  is not to be used. \<open>msnV\<close> and \<open>msnA\<close> are the sequence numbers of the fragments the two
  tracks are at. The result is \<open>syncedUsingSeqNum\<close>, the number of passes of the loop, and
  the state.
\<close>

definition SyncTracks_seqnum ::
  "bool \<Rightarrow> int \<Rightarrow> int \<Rightarrow> Context \<Rightarrow> TrackState \<Rightarrow> TrackState
   \<Rightarrow> abnormal + (bool \<times> nat \<times> Context \<times> TrackState \<times> TrackState)" where
  "SyncTracks_seqnum startTimeAvailable msnV msnA ctx video audio =
     (if msnA > msnV then
        (let diff = msnA - msnV in
         if startTimeAvailable \<and> diff > MAX_SEQ_NUMBER_DIFF_FOR_SEQ_NUM_BASED_SYNC
           then Inr (False, 0, ctx, video, audio)
         else if diff \<le> MAX_SEQ_NUMBER_LAG_COUNT \<and> diff > 0 then
           (case lag_loop diff 0 ctx video audio of
              Inl e \<Rightarrow> Inl e
            | Inr (passes, ctx', video') \<Rightarrow> Inr (True, passes, ctx', video', audio))
         else Inr (False, 0, ctx, video, audio))
      else if msnV > msnA then
        (let diff = msnV - msnA in
         if startTimeAvailable \<and> diff > MAX_SEQ_NUMBER_DIFF_FOR_SEQ_NUM_BASED_SYNC
           then Inr (False, 0, ctx, video, audio)
         else if diff \<le> MAX_SEQ_NUMBER_LAG_COUNT \<and> diff > 0 then
           (case lag_loop diff 0 ctx audio video of
              Inl e \<Rightarrow> Inl e
            | Inr (passes, ctx', audio') \<Rightarrow> Inr (True, passes, ctx', video, audio'))
         else Inr (False, 0, ctx, video, audio))
      else Inr (True, 0, ctx, video, audio))"

text \<open>The synchronisation by start time, entered when the tracks are not yet in sync.\<close>

definition SyncTracks_starttime ::
  "bool \<Rightarrow> real \<Rightarrow> TrackState \<Rightarrow> TrackState \<Rightarrow> AAMPStatusType \<times> TrackState \<times> TrackState" where
  "SyncTracks_starttime startTimeAvailable diffBetweenStartTimes video audio =
     (if startTimeAvailable then
        (if diffBetweenStartTimes > 0 then
           (if diffBetweenStartTimes > fragmentDurationSeconds video / 2 then
              (if mDuration video > playTarget video + diffBetweenStartTimes then
                 (eAAMPSTATUS_OK,
                  video\<lparr>playTarget := playTarget video + diffBetweenStartTimes,
                        playTargetOffset := diffBetweenStartTimes\<rparr>, audio)
               else (eAAMPSTATUS_TRACKS_SYNCHRONISATION_ERROR, video, audio))
            else (eAAMPSTATUS_OK, video, audio))
         else if diffBetweenStartTimes < 0 then
           (if \<bar>diffBetweenStartTimes\<bar> > fragmentDurationSeconds audio / 2 then
              (if mDuration audio > playTarget audio - diffBetweenStartTimes then
                 (eAAMPSTATUS_OK, video,
                  audio\<lparr>playTarget := playTarget audio - diffBetweenStartTimes,
                        playTargetOffset := - diffBetweenStartTimes\<rparr>)
               else (eAAMPSTATUS_TRACKS_SYNCHRONISATION_ERROR, video, audio))
            else (eAAMPSTATUS_OK, video, audio))
         else (eAAMPSTATUS_OK, video, audio))
      else (eAAMPSTATUS_TRACKS_SYNCHRONISATION_ERROR, video, audio))"

text \<open>
  \<open>SyncTracks\<close>. Besides the status and the state the result holds the number of passes
  that the loop over the lagging track has made.
\<close>

definition SyncTracks ::
  "bool \<Rightarrow> Context \<Rightarrow> TrackState \<Rightarrow> TrackState
   \<Rightarrow> abnormal + (AAMPStatusType \<times> nat \<times> Context \<times> TrackState \<times> TrackState)" where
  "SyncTracks useProgramDateTimeIfAvailable ctx0 video0 audio0 =
     (case SyncTracks_first ctx0 video0 audio0 of
        Inl e \<Rightarrow> Inl e
      | Inr (ctx1, video) \<Rightarrow>
     (case SyncTracks_first ctx1 audio0 video of
        Inl e \<Rightarrow> Inl e
      | Inr (ctx, audio) \<Rightarrow>
          (let startTimeAvailable =
                 (fst (startTimeForPlaylistSync video) \<noteq> 0 \<and> fst (startTimeForPlaylistSync audio) \<noteq> 0);
               msnV = nextMediaSequenceNumber video - 1;
               msnA = nextMediaSequenceNumber audio - 1;
               diffBetweenStartTimes =
                 (if startTimeAvailable then
                    real_of_int (fst (startTimeForPlaylistSync audio) - fst (startTimeForPlaylistSync video))
                      + real_of_int (snd (startTimeForPlaylistSync audio) - snd (startTimeForPlaylistSync video))
                          / 1000000
                  else 0)
           in case (if \<not> startTimeAvailable \<or> \<not> useProgramDateTimeIfAvailable
                    then SyncTracks_seqnum startTimeAvailable msnV msnA ctx video audio
                    else Inr (False, 0, ctx, video, audio)) of
                Inl e \<Rightarrow> Inl e
              | Inr (syncedUsingSeqNum, passes, ctx', video', audio') \<Rightarrow>
                  if \<not> syncedUsingSeqNum then
                    (case SyncTracks_starttime startTimeAvailable diffBetweenStartTimes video' audio' of
                       (retval, video'', audio'') \<Rightarrow> Inr (retval, passes, ctx', video'', audio''))
                  else Inr (eAAMPSTATUS_OK, passes, ctx', video', audio'))))"

subsection \<open>What a playlist says about its kind\<close>

text \<open>
  The playlist of the track begins with \<open>#EXTM3U\<close>, its first \<open>#EXT-X-PLAYLIST-TYPE:\<close> tag
  says \<open>EVENT\<close>, and it has no \<open>#EXT-X-ENDLIST\<close> tag.
\<close>

definition declares_EVENT_without_ENDLIST :: "TrackState \<Rightarrow> bool" where
  "declares_EVENT_without_ENDLIST ts =
     (case playlist ts of
        None \<Rightarrow> False
      | Some buf \<Rightarrow>
          take 7 buf = ''#EXTM3U''
          \<and> (case strstr buf ''#EXT-X-PLAYLIST-TYPE:'' of
                None \<Rightarrow> False
              | Some q \<Rightarrow>
                  startswith (after_prefix ''#EXT-X-PLAYLIST-TYPE:'' q) ''VOD'' = None
                  \<and> startswith (after_prefix ''#EXT-X-PLAYLIST-TYPE:'' q) ''EVENT'' \<noteq> None)
          \<and> strstr buf ''#EXT-X-ENDLIST'' = None)"

text \<open>The playlist of the track begins with \<open>#EXTM3U\<close> and has an \<open>#EXT-X-ENDLIST\<close> tag.\<close>

definition has_ENDLIST :: "TrackState \<Rightarrow> bool" where
  "has_ENDLIST ts =
     (case playlist ts of
        None \<Rightarrow> False
      | Some buf \<Rightarrow> take 7 buf = ''#EXTM3U'' \<and> strstr buf ''#EXT-X-ENDLIST'' \<noteq> None)"

subsection \<open>Example playlists\<close>

text \<open>A playlist buffer from its lines, each ended by LF.\<close>

definition playlist_text :: "string list \<Rightarrow> string" where
  "playlist_text ls = concat (map (\<lambda>l. l @ [CHAR_LF]) ls)"

text \<open>A track that holds a playlist and has not yet selected a fragment from it.\<close>

definition track_with :: "TrackType \<Rightarrow> string \<Rightarrow> TrackState" where
  "track_with t buf =
     (TrackState_new t)\<lparr>enabled := True, playlist := Some buf, fragmentURI := Some buf,
                        playlistPosition := - 1\<rparr>"

definition vod_ctx :: Context where
  "vod_ctx = (Context_new 0 1)\<lparr>playlistType := ePLAYLISTTYPE_VOD\<rparr>"

definition event_playlist :: string where
  "event_playlist = playlist_text [''#EXTM3U'', ''#EXT-X-PLAYLIST-TYPE:EVENT'', ''#EXTINF:2,'', ''a.ts'']"

definition endlist_playlist :: string where
  "endlist_playlist = playlist_text [''#EXTM3U'', ''#EXTINF:2,'', ''a.ts'', ''#EXT-X-ENDLIST'']"

text \<open>Inputs for the examples of the live-edge adjustment.\<close>

definition live_ctx :: Context where
  "live_ctx = (Context_new 0 1)\<lparr>mLiveOffset := 10, IsLive := True\<rparr>"

definition live_track :: "TrackType \<Rightarrow> real \<Rightarrow> TrackState" where
  "live_track t d = (TrackState_new t)\<lparr>enabled := True, mDuration := d\<rparr>"

section \<open>Theorems\<close>

subsection \<open>What indexing and the search for a sequence number leave unchanged\<close>

lemma callback_shape:
  "\<exists>cs b. ParseKeyAttributeCallback (ctx, ts) a = (ctx\<lparr>calls := cs\<rparr>, ts\<lparr>fragmentEncrypted := b\<rparr>)"
proof -
  have c: "ctx = ctx\<lparr>calls := calls ctx\<rparr>" and t: "ts = ts\<lparr>fragmentEncrypted := fragmentEncrypted ts\<rparr>"
    by simp_all
  obtain n v where a: "a = (n, v)" by (cases a)
  show ?thesis
    unfolding ParseKeyAttributeCallback_def a
    apply (simp only: prod.case split: if_splits)
    apply (intro conjI impI)
    using c t apply blast+
    done
qed

lemma callback_fold_shape:
  "\<exists>cs b. foldl ParseKeyAttributeCallback (ctx\<lparr>calls := cs0\<rparr>, ts\<lparr>fragmentEncrypted := b0\<rparr>) fs
           = (ctx\<lparr>calls := cs\<rparr>, ts\<lparr>fragmentEncrypted := b\<rparr>)"
proof (induction fs arbitrary: cs0 b0)
  case Nil
  show ?case by auto
next
  case (Cons a fs)
  obtain cs1 b1 where
    "ParseKeyAttributeCallback (ctx\<lparr>calls := cs0\<rparr>, ts\<lparr>fragmentEncrypted := b0\<rparr>) a
       = (ctx\<lparr>calls := cs0\<rparr>\<lparr>calls := cs1\<rparr>, ts\<lparr>fragmentEncrypted := b0\<rparr>\<lparr>fragmentEncrypted := b1\<rparr>)"
    using callback_shape by blast
  then have "ParseKeyAttributeCallback (ctx\<lparr>calls := cs0\<rparr>, ts\<lparr>fragmentEncrypted := b0\<rparr>) a
       = (ctx\<lparr>calls := cs1\<rparr>, ts\<lparr>fragmentEncrypted := b1\<rparr>)" by simp
  with Cons.IH [of cs1 b1] show ?case by simp
qed

lemma ParseAttrList_key_shape:
  assumes "ParseAttrList_key a ctx ts = Inr (ctx', ts')"
  shows "\<exists>cs b. ctx' = ctx\<lparr>calls := cs\<rparr> \<and> ts' = ts\<lparr>fragmentEncrypted := b\<rparr>"
proof -
  from assms obtain fs where "foldl ParseKeyAttributeCallback (ctx, ts) fs = (ctx', ts')"
    by (auto simp: ParseAttrList_key_def split: attr_outcome.splits)
  moreover have "ctx = ctx\<lparr>calls := calls ctx\<rparr>" "ts = ts\<lparr>fragmentEncrypted := fragmentEncrypted ts\<rparr>"
    by simp_all
  ultimately show ?thesis
    using callback_fold_shape [where ctx = ctx and ?cs0.0 = "calls ctx" and ts = ts
        and ?b0.0 = "fragmentEncrypted ts" and fs = fs] by auto
qed




lemma index_tag_inv:
  assumes "index_tag p loc ctx ts = Inr (q, loc', ctx', ts')"
  shows "playlistType ctx' = playlistType ctx \<and> mCulledSeconds ts' = mCulledSeconds ts
         \<and> track_type ts' = track_type ts"
proof -
  let ?r = "drop 4 p"
  consider (inf) "startswith ?r ''INF:'' \<noteq> None"
    | (disc) "startswith ?r ''INF:'' = None" "startswith ?r ''-X-DISCONTINUITY'' \<noteq> None"
    | (pdt) "startswith ?r ''INF:'' = None" "startswith ?r ''-X-DISCONTINUITY'' = None"
        "startswith ?r ''-X-PROGRAM-DATE-TIME:'' \<noteq> None"
    | (key) "startswith ?r ''INF:'' = None" "startswith ?r ''-X-DISCONTINUITY'' = None"
        "startswith ?r ''-X-PROGRAM-DATE-TIME:'' = None" "startswith ?r ''-X-KEY:'' \<noteq> None"
    | (other) "startswith ?r ''INF:'' = None" "startswith ?r ''-X-DISCONTINUITY'' = None"
        "startswith ?r ''-X-PROGRAM-DATE-TIME:'' = None" "startswith ?r ''-X-KEY:'' = None"
    by blast
  then show ?thesis
  proof cases
    case inf
    with assms show ?thesis
      by (cases "advance 12 p") (auto simp: index_tag_def Let_def split: if_splits)
  next
    case disc
    with assms show ?thesis
      by (cases "advance 4 p") (auto simp: index_tag_def Let_def split: if_splits)
  next
    case pdt
    with assms show ?thesis
      by (cases "advance 4 p") (auto simp: index_tag_def Let_def)
  next
    case key
    show ?thesis
    proof (cases "ParseAttrList_key (takeWhile (\<lambda>c. c \<noteq> CHAR_LF) (drop 11 p)) ctx ts")
      case (Inl e)
      with key assms show ?thesis by (simp add: index_tag_def Let_def)
    next
      case (Inr x)
      then obtain c1 t1 where k: "ParseAttrList_key (takeWhile (\<lambda>c. c \<noteq> CHAR_LF) (drop 11 p)) ctx ts = Inr (c1, t1)"
        by (cases x) auto
      from ParseAttrList_key_shape [OF k] obtain cs b where
        s: "c1 = ctx\<lparr>calls := cs\<rparr>" "t1 = ts\<lparr>fragmentEncrypted := b\<rparr>" by blast
      from key assms k show ?thesis
        by (cases "advance 15 p") (auto simp: index_tag_def Let_def s)
    qed
  next
    case other
    with assms show ?thesis
      by (cases "advance 4 p") (auto simp: index_tag_def Let_def)
  qed
qed


lemma build_index_inv:
  "build_index ptr loc ctx ts = Inr (loc', ctx', ts') \<Longrightarrow>
   playlistType ctx' = playlistType ctx \<and> mCulledSeconds ts' = mCulledSeconds ts
   \<and> track_type ts' = track_type ts"
proof (induction ptr loc ctx ts rule: build_index.induct)
  case (1 ptr loc ctx ts)
  note pr = "1.prems" [unfolded build_index.simps [of ptr]]
  show ?case
  proof (cases "strstr ptr ''#EXT''")
    case None
    with pr show ?thesis by simp
  next
    case (Some p)
    show ?thesis
    proof (cases "index_tag p loc ctx ts")
      case (Inl e)
      with Some pr show ?thesis by simp
    next
      case (Inr r)
      then obtain q loc1 ctx1 ts1 where r: "index_tag p loc ctx ts = Inr (q, loc1, ctx1, ts1)"
        by (cases r) auto
      from pr Some r have "build_index q loc1 ctx1 ts1 = Inr (loc', ctx', ts')" by simp
      from "1.IH" [OF Some r refl refl refl this] index_tag_inv [OF r]
      show ?thesis by simp
    qed
  qed
qed

lemma index_header_inv:
  "index_header buf ctx ts = (ctx', ts') \<Longrightarrow>
     mCulledSeconds ts' = mCulledSeconds ts \<and> track_type ts' = track_type ts"
proof -
  assume a: "index_header buf ctx ts = (ctx', ts')"
  have "mCulledSeconds (snd (index_header buf ctx ts)) = mCulledSeconds ts
        \<and> track_type (snd (index_header buf ctx ts)) = track_type ts"
    unfolding index_header_def Let_def snd_conv
    by (simp split: option.split)
  with a show ?thesis by simp
qed

lemma IndexPlaylist_culled:
  assumes "IndexPlaylist ctx ts = Inr (ctx', ts')"
  shows "mCulledSeconds ts' = mCulledSeconds ts \<and> track_type ts' = track_type ts"
proof (cases "playlist ts")
  case None
  with assms show ?thesis by (auto simp: IndexPlaylist_def FlushIndex_def Let_def)
next
  case (Some buf)
  show ?thesis
  proof (cases "take 7 buf = ''#EXTM3U''")
    case False
    with Some assms show ?thesis by (auto simp: IndexPlaylist_def FlushIndex_def Let_def)
  next
    case True
    obtain ctx1 ts1 where h: "index_header buf ctx ((FlushIndex ts)\<lparr>mIndexingInProgress := True\<rparr>) = (ctx1, ts1)"
      by (cases "index_header buf ctx ((FlushIndex ts)\<lparr>mIndexingInProgress := True\<rparr>)")
    have pl: "playlist ((FlushIndex ts)\<lparr>mIndexingInProgress := True\<rparr>) = Some buf"
      using Some by (simp add: FlushIndex_def)
    from assms obtain loc ctx2 ts2 where
      b: "build_index buf IndexLocals_new ctx1 ts1 = Inr (loc, ctx2, ts2)"
      and e: "ts' = ts2\<lparr>firstIndexDone := True, mIndexingInProgress := False, mDuration := i_totalDuration loc\<rparr>"
      unfolding IndexPlaylist_def Let_def pl using True h
      by (cases "build_index buf IndexLocals_new ctx1 ts1") auto
    from index_header_inv [OF h] build_index_inv [OF b] e
    show ?thesis by (simp add: FlushIndex_def)
  qed
qed

lemma index_header_type:
  "index_header buf ctx ts = (ctx', ts') \<Longrightarrow>
   playlistType ctx' =
     (let k1 = (case strstr buf ''#EXT-X-PLAYLIST-TYPE:'' of
                  None \<Rightarrow> playlistType ctx
                | Some q \<Rightarrow>
                    if startswith (after_prefix ''#EXT-X-PLAYLIST-TYPE:'' q) ''VOD'' \<noteq> None then ePLAYLISTTYPE_VOD
                    else if startswith (after_prefix ''#EXT-X-PLAYLIST-TYPE:'' q) ''EVENT'' \<noteq> None then ePLAYLISTTYPE_EVENT
                    else playlistType ctx)
      in if k1 \<noteq> ePLAYLISTTYPE_VOD \<and> strstr buf ''#EXT-X-ENDLIST'' \<noteq> None then ePLAYLISTTYPE_VOD else k1)"
  unfolding index_header_def Let_def
  by (cases "strstr buf ''#EXT-X-PLAYLIST-TYPE:''") (auto simp del: strstr.simps startswith.simps)

lemma IndexPlaylist_type:
  assumes "IndexPlaylist ctx ts = Inr (ctx', ts')"
  shows "playlistType ctx' =
     (case playlist ts of
        None \<Rightarrow> playlistType ctx
      | Some buf \<Rightarrow>
          if take 7 buf \<noteq> ''#EXTM3U'' then playlistType ctx
          else playlistType (fst (index_header buf ctx ((FlushIndex ts)\<lparr>mIndexingInProgress := True\<rparr>))))"
proof (cases "playlist ts")
  case None
  with assms show ?thesis by (auto simp: IndexPlaylist_def FlushIndex_def Let_def)
next
  case (Some buf)
  show ?thesis
  proof (cases "take 7 buf = ''#EXTM3U''")
    case False
    with Some assms show ?thesis by (auto simp: IndexPlaylist_def FlushIndex_def Let_def)
  next
    case True
    obtain ctx1 ts1 where h: "index_header buf ctx ((FlushIndex ts)\<lparr>mIndexingInProgress := True\<rparr>) = (ctx1, ts1)"
      by (cases "index_header buf ctx ((FlushIndex ts)\<lparr>mIndexingInProgress := True\<rparr>)")
    have pl: "playlist ((FlushIndex ts)\<lparr>mIndexingInProgress := True\<rparr>) = Some buf"
      using Some by (simp add: FlushIndex_def)
    from assms obtain loc ctx2 ts2 where
      b: "build_index buf IndexLocals_new ctx1 ts1 = Inr (loc, ctx2, ts2)"
      and e: "ctx' = (if track_type ts2 = eTRACK_VIDEO
                   then ctx2\<lparr>calls := calls ctx2 @ [UpdateDuration (i_totalDuration loc)]\<rparr>
                   else ctx2)"
      unfolding IndexPlaylist_def Let_def pl using True h
      by (cases "build_index buf IndexLocals_new ctx1 ts1") auto
    from build_index_inv [OF b] e have "playlistType ctx' = playlistType ctx1" by simp
    with Some True h show ?thesis by simp
  qed
qed


lemma FindMedia_inv:
  "FindMediaForSequenceNumber_loop m sq key ptr ctx ts = Inr (uri, ctx', ts') \<Longrightarrow>
   index ts' = index ts \<and> indexFirstMediaSequenceNumber ts' = indexFirstMediaSequenceNumber ts
   \<and> mCulledSeconds ts' = mCulledSeconds ts \<and> track_type ts' = track_type ts"
proof (induction m sq key ptr ctx ts rule: FindMediaForSequenceNumber_loop.induct)
  case (1 m sq key ptr ctx ts)
  show ?case
  proof (cases ptr)
    case None
    with "1.prems" show ?thesis by (simp add: FindMediaForSequenceNumber_loop.simps [of _ _ _ None])
  next
    case (Some p)
    obtain lin nxt where mp: "(lin, nxt) = mystrpbrk p" by (cases "mystrpbrk p") auto
    note IH = "1.IH" [OF Some mp]
    note pr = "1.prems" [unfolded Some FindMediaForSequenceNumber_loop.simps [of _ _ _ "Some p"],
        simplified, unfolded mp [symmetric], simplified]
    show ?thesis
    proof (cases "lin = []")
      case True
      with pr IH(1) show ?thesis by simp
    next
      case ne: False
      show ?thesis
      proof (cases "startswith lin ''#EXTINF:'' \<noteq> None")
        case True
        with pr ne IH(2) show ?thesis by simp
      next
        case n1: False
        show ?thesis
        proof (cases "startswith lin ''#EXT-X-MEDIA-SEQUENCE:'' \<noteq> None")
          case True
          with pr ne n1 IH(3) show ?thesis by simp
        next
          case n2: False
          show ?thesis
          proof (cases "startswith lin ''#EXT-X-KEY:'' \<noteq> None")
            case True
            with pr ne n1 n2 IH(4) show ?thesis by simp
          next
            case n3: False
            show ?thesis
            proof (cases "hd lin \<noteq> CHR ''#''")
              case False
              with pr ne n1 n2 n3 IH(6) show ?thesis by simp
            next
              case h: True
              show ?thesis
              proof (cases "sq \<ge> m")
                case False
                with pr ne n1 n2 n3 h IH(5) show ?thesis by simp
              next
                case True
                with pr ne n1 n2 n3 h show ?thesis
                  by (auto split: if_splits sum.splits dest!: ParseAttrList_key_shape)
              qed
            qed
          qed
        qed
      qed
    qed
  qed
qed



text \<open>
  C9. The attribute-list parser is claimed never to read past the end of its string, also on
  malformed input. On the list \<open>METHOD=NONE,FOO\<close> the first field is delivered to the
  callback, and the scan for the \<open>=\<close> of the second field, which has none, runs past the
  terminator.
\<close>

theorem ParseAttrList_field_without_equals:
  "ParseAttrList ''METHOD=NONE,FOO'' = ReadPastTerminator [(''METHOD'', ''NONE'')]"
  by (simp add: ParseAttrList_def ParseAttrList_loop.simps CHAR_QUOTE_def)


text \<open>
  C4. Live-edge adjustment, as the specification states it: each track's offset to live is
  \<open>duration - live_offset - play_target_offset\<close>, both play targets advance by the minimum
  of the two, and the at-live-point flag is set if and only if that offset is positive.
  With both durations 10.5 s and a live offset of 10 s the stated offset is 0.5 s, but the
  code keeps its offsets in \<open>int\<close> variables: it applies 0 and leaves the flag unset.
\<close>

theorem live_adjust_counterexample:
  "mDuration (live_track eTRACK_VIDEO (21 / 2)) > mLiveOffset live_ctx + playTargetOffset (live_track eTRACK_VIDEO (21 / 2))
   \<and> spec_applied_offset live_ctx (live_track eTRACK_VIDEO (21 / 2)) (live_track eTRACK_AUDIO (21 / 2)) = 1 / 2
   \<and> playTarget (fst (snd (Init_liveAdjust live_ctx (live_track eTRACK_VIDEO (21 / 2)) (live_track eTRACK_AUDIO (21 / 2)))))
       \<noteq> playTarget (live_track eTRACK_VIDEO (21 / 2))
           + spec_applied_offset live_ctx (live_track eTRACK_VIDEO (21 / 2)) (live_track eTRACK_AUDIO (21 / 2))
   \<and> \<not> mIsAtLivePoint (fst (Init_liveAdjust live_ctx (live_track eTRACK_VIDEO (21 / 2)) (live_track eTRACK_AUDIO (21 / 2))))"
  by (simp add: Init_liveAdjust_def live_ctx_def live_track_def TrackState_new_def Context_new_def
      spec_applied_offset_def spec_offset_to_live_def c_trunc_def Let_def)

text \<open>
  C4, amended. When the video duration exceeds the live offset plus the video play-target
  offset, each offset to live is the whole-second part of
  \<open>duration - live_offset - play_target_offset\<close>; the audio offset is 0 when the audio
  duration does not exceed the live offset plus the audio play-target offset, and the video
  offset when audio is disabled; the play target of the video track, and of the audio track
  when it is enabled, advances by the minimum of the two; the applied offset is never
  negative, and the at-live-point flag is set when it is positive and left as it was
  otherwise.
\<close>

theorem live_adjust_amended:
  assumes "mDuration video > real_of_int (c_trunc (mLiveOffset ctx)) + playTargetOffset video"
  shows "case Init_liveAdjust ctx video audio of (ctx', video', audio') \<Rightarrow>
     playTarget video' = playTarget video + real_of_int (offsetToLive_applied ctx video audio)
   \<and> playTarget audio' =
       (if enabled audio then playTarget audio + real_of_int (offsetToLive_applied ctx video audio)
        else playTarget audio)
   \<and> (mIsAtLivePoint ctx' \<longleftrightarrow> mIsAtLivePoint ctx \<or> 0 < offsetToLive_applied ctx video audio)
   \<and> 0 \<le> offsetToLive_applied ctx video audio"
proof -
  have nn: "0 \<le> offsetToLive_of ctx video"
    using assms by (simp add: offsetToLive_of_def c_trunc_def)
  have nn2: "0 \<le> offsetToLive_of ctx audio"
    if "mDuration audio > real_of_int (c_trunc (mLiveOffset ctx)) + playTargetOffset audio"
    using that by (simp add: offsetToLive_of_def c_trunc_def)
  have nn3: "0 \<le> offsetToLive_applied ctx video audio"
    using nn nn2 by (simp add: offsetToLive_applied_def)
  show ?thesis
    using assms nn3
    by (auto simp: Init_liveAdjust_def Let_def offsetToLive_applied_def offsetToLive_of_def)
qed

text \<open>
  The boundary scenario of the specification: duration 120 s, live offset 10 s, both
  play-target offsets 0. Both tracks end at play target 110 and the flag is set.
\<close>

theorem live_adjust_witness:
  "mDuration (live_track eTRACK_VIDEO 120)
     > real_of_int (c_trunc (mLiveOffset live_ctx)) + playTargetOffset (live_track eTRACK_VIDEO 120)
   \<and> playTarget (fst (snd (Init_liveAdjust live_ctx (live_track eTRACK_VIDEO 120) (live_track eTRACK_AUDIO 120)))) = 110
   \<and> playTarget (snd (snd (Init_liveAdjust live_ctx (live_track eTRACK_VIDEO 120) (live_track eTRACK_AUDIO 120)))) = 110
   \<and> mIsAtLivePoint (fst (Init_liveAdjust live_ctx (live_track eTRACK_VIDEO 120) (live_track eTRACK_AUDIO 120)))"
proof -
  have h: "mDuration (live_track eTRACK_VIDEO 120)
     > real_of_int (c_trunc (mLiveOffset live_ctx)) + playTargetOffset (live_track eTRACK_VIDEO 120)"
    by (simp add: live_ctx_def live_track_def TrackState_new_def Context_new_def c_trunc_def)
  have o: "offsetToLive_applied live_ctx (live_track eTRACK_VIDEO 120) (live_track eTRACK_AUDIO 120) = 110"
    by (simp add: offsetToLive_applied_def offsetToLive_of_def live_ctx_def live_track_def
        TrackState_new_def Context_new_def c_trunc_def)
  have p: "playTarget (live_track t 120) = 0" "enabled (live_track t 120)" for t
    by (simp_all add: live_track_def TrackState_new_def)
  show ?thesis
    using h live_adjust_amended [OF h, of "live_track eTRACK_AUDIO 120"]
    by (simp add: o p split: prod.splits)
qed

text \<open>
  C8. A playlist buffer whose first seven bytes are not \<open>#EXTM3U\<close>: indexing returns after
  sending the invalid-manifest failure event, with the duration of the track 0 and with no
  entry in the fragment index, the discontinuity index or the DRM metadata index.
\<close>

theorem IndexPlaylist_invalid_manifest:
  assumes "playlist ts = Some buf" and "take 7 buf \<noteq> ''#EXTM3U''"
  shows "\<exists>ctx' ts'. IndexPlaylist ctx ts = Inr (ctx', ts')
     \<and> calls ctx' = calls ctx @ [SendErrorEvent AAMP_TUNE_INVALID_MANIFEST_FAILURE]
     \<and> mDuration ts' = 0
     \<and> index ts' = [] \<and> mDiscontinuityIndex ts' = [] \<and> mDrmMetaDataIndex ts' = []"
  using assms by (simp add: IndexPlaylist_def FlushIndex_def Let_def)

text \<open>A track that held a duration of 30 s is given an HTML error page as its playlist.\<close>

theorem IndexPlaylist_invalid_manifest_witness:
  "playlist ((TrackState_new eTRACK_VIDEO)\<lparr>playlist := Some ''<html>'', mDuration := 30\<rparr>) = Some ''<html>''
   \<and> take 7 ''<html>'' \<noteq> ''#EXTM3U''
   \<and> (\<exists>ctx' ts'. IndexPlaylist (Context_new 0 1)
           ((TrackState_new eTRACK_VIDEO)\<lparr>playlist := Some ''<html>'', mDuration := 30\<rparr>) = Inr (ctx', ts')
        \<and> calls ctx' = [SendErrorEvent AAMP_TUNE_INVALID_MANIFEST_FAILURE]
        \<and> mDuration ts' = 0 \<and> index ts' = [] \<and> mDiscontinuityIndex ts' = [] \<and> mDrmMetaDataIndex ts' = [])"
proof -
  have h1: "playlist ((TrackState_new eTRACK_VIDEO)\<lparr>playlist := Some ''<html>'', mDuration := 30\<rparr>) = Some ''<html>''"
    by simp
  have h2: "take 7 ''<html>'' \<noteq> ''#EXTM3U''" by simp
  have c: "calls (Context_new 0 1) = []" by (simp add: Context_new_def)
  from IndexPlaylist_invalid_manifest [OF h1 h2, of "Context_new 0 1"] h1 h2 c
  show ?thesis by simp
qed

text \<open>
  C10. A playlist refresh whose download delivers no data returns with the playlist buffer
  the track held before, and with the index, the discontinuity and DRM metadata indexes,
  the duration, the fragment cursor (\<open>fragmentURI\<close>, \<open>playlistPosition\<close>, \<open>currentIdx\<close>,
  \<open>nextMediaSequenceNumber\<close>) and the culled seconds as they were.
\<close>

theorem RefreshPlaylist_failed_download:
  "\<exists>ctx' ts'. RefreshPlaylist now [] http_error ctx ts = Inr (ctx', ts')
     \<and> playlist ts' = playlist ts
     \<and> index ts' = index ts
     \<and> indexFirstMediaSequenceNumber ts' = indexFirstMediaSequenceNumber ts
     \<and> mDiscontinuityIndex ts' = mDiscontinuityIndex ts
     \<and> mDrmMetaDataIndex ts' = mDrmMetaDataIndex ts
     \<and> mDuration ts' = mDuration ts
     \<and> fragmentURI ts' = fragmentURI ts
     \<and> playlistPosition ts' = playlistPosition ts
     \<and> currentIdx ts' = currentIdx ts
     \<and> nextMediaSequenceNumber ts' = nextMediaSequenceNumber ts
     \<and> mCulledSeconds ts' = mCulledSeconds ts"
  by (cases "playlist ts") (simp_all add: RefreshPlaylist_def Let_def GetCompletionTimeForFragment_def)

text \<open>
  C7. The playlist kind is claimed never to leave \<open>vod\<close> on a later index. A context whose
  kind is \<open>vod\<close> indexes a playlist that has a \<open>PLAYLIST-TYPE\<close> tag of \<open>EVENT\<close> and no
  \<open>ENDLIST\<close> tag: the kind is \<open>event\<close> afterwards.
\<close>

theorem playlist_kind_vod_counterexample:
  "playlistType vod_ctx = ePLAYLISTTYPE_VOD
   \<and> \<not> isl (IndexPlaylist vod_ctx (track_with eTRACK_VIDEO event_playlist))
   \<and> playlistType (fst (projr (IndexPlaylist vod_ctx (track_with eTRACK_VIDEO event_playlist))))
       = ePLAYLISTTYPE_EVENT"
  by (simp add: IndexPlaylist_def index_header_def index_tag_def build_index.simps collect_FAXS_CM.simps
      vod_ctx_def track_with_def event_playlist_def playlist_text_def CHAR_LF_def CHAR_CR_def
      FlushIndex_def TrackState_new_def Context_new_def IndexLocals_new_def after_prefix_def
      atoll_def atof_def signed_digits_def isspace_def isdigit_def digit_value_def advance_def
      line_at_def mystrpbrk_def Let_def)

text \<open>
  C7, amended. When indexing returns: a kind that was \<open>vod\<close> is \<open>vod\<close> afterwards, except
  that it becomes \<open>event\<close> when the playlist indexed begins with \<open>#EXTM3U\<close>, has a
  \<open>PLAYLIST-TYPE\<close> tag of \<open>EVENT\<close> and has no \<open>ENDLIST\<close> tag; and whatever the kind was, it
  is \<open>vod\<close> after indexing a playlist that begins with \<open>#EXTM3U\<close> and has an \<open>ENDLIST\<close> tag.
\<close>

theorem playlist_kind_vod_amended:
  assumes "IndexPlaylist ctx ts = Inr (ctx', ts')"
  shows "(playlistType ctx = ePLAYLISTTYPE_VOD \<longrightarrow>
            playlistType ctx' = (if declares_EVENT_without_ENDLIST ts then ePLAYLISTTYPE_EVENT
                                 else ePLAYLISTTYPE_VOD))
       \<and> (has_ENDLIST ts \<longrightarrow> playlistType ctx' = ePLAYLISTTYPE_VOD)"
proof (cases "playlist ts")
  case None
  with IndexPlaylist_type [OF assms] show ?thesis
    by (simp add: declares_EVENT_without_ENDLIST_def has_ENDLIST_def)
next
  case (Some buf)
  show ?thesis
  proof (cases "take 7 buf = ''#EXTM3U''")
    case False
    with Some IndexPlaylist_type [OF assms] show ?thesis
      by (simp add: declares_EVENT_without_ENDLIST_def has_ENDLIST_def)
  next
    case True
    obtain ctx1 ts1 where h: "index_header buf ctx ((FlushIndex ts)\<lparr>mIndexingInProgress := True\<rparr>) = (ctx1, ts1)"
      by (cases "index_header buf ctx ((FlushIndex ts)\<lparr>mIndexingInProgress := True\<rparr>)")
    from IndexPlaylist_type [OF assms] Some True h have e: "playlistType ctx' = playlistType ctx1" by simp
    show ?thesis
      unfolding e index_header_type [OF h] declares_EVENT_without_ENDLIST_def has_ENDLIST_def Some Let_def
      using True
      by (cases "strstr buf ''#EXT-X-PLAYLIST-TYPE:''") (auto simp del: strstr.simps startswith.simps)
  qed
qed

text \<open>
  A context of undefined kind indexes a playlist with an \<open>ENDLIST\<close> tag, and a context of
  kind \<open>vod\<close> indexes it again: the kind is \<open>vod\<close> after both.
\<close>

theorem playlist_kind_vod_witness:
  "IndexPlaylist (Context_new 0 1) (track_with eTRACK_VIDEO endlist_playlist)
     = Inr (projr (IndexPlaylist (Context_new 0 1) (track_with eTRACK_VIDEO endlist_playlist)))
   \<and> IndexPlaylist vod_ctx (track_with eTRACK_VIDEO endlist_playlist)
     = Inr (projr (IndexPlaylist vod_ctx (track_with eTRACK_VIDEO endlist_playlist)))
   \<and> playlistType (Context_new 0 1) = ePLAYLISTTYPE_UNDEFINED
   \<and> playlistType vod_ctx = ePLAYLISTTYPE_VOD
   \<and> has_ENDLIST (track_with eTRACK_VIDEO endlist_playlist)
   \<and> \<not> declares_EVENT_without_ENDLIST (track_with eTRACK_VIDEO endlist_playlist)
   \<and> playlistType (fst (projr (IndexPlaylist (Context_new 0 1) (track_with eTRACK_VIDEO endlist_playlist))))
       = ePLAYLISTTYPE_VOD
   \<and> playlistType (fst (projr (IndexPlaylist vod_ctx (track_with eTRACK_VIDEO endlist_playlist))))
       = ePLAYLISTTYPE_VOD"
proof -
  have r1: "\<not> isl (IndexPlaylist (Context_new 0 1) (track_with eTRACK_VIDEO endlist_playlist))"
    and r2: "\<not> isl (IndexPlaylist vod_ctx (track_with eTRACK_VIDEO endlist_playlist))"
    by (simp_all add: IndexPlaylist_def index_header_def index_tag_def build_index.simps
        collect_FAXS_CM.simps vod_ctx_def track_with_def endlist_playlist_def playlist_text_def
        CHAR_LF_def CHAR_CR_def FlushIndex_def TrackState_new_def Context_new_def IndexLocals_new_def
        after_prefix_def atoll_def atof_def signed_digits_def isspace_def isdigit_def digit_value_def
        advance_def line_at_def mystrpbrk_def Let_def)
  have e1: "IndexPlaylist (Context_new 0 1) (track_with eTRACK_VIDEO endlist_playlist)
     = Inr (fst (projr (IndexPlaylist (Context_new 0 1) (track_with eTRACK_VIDEO endlist_playlist))),
            snd (projr (IndexPlaylist (Context_new 0 1) (track_with eTRACK_VIDEO endlist_playlist))))"
    using r1 by (cases "IndexPlaylist (Context_new 0 1) (track_with eTRACK_VIDEO endlist_playlist)") auto
  have e2: "IndexPlaylist vod_ctx (track_with eTRACK_VIDEO endlist_playlist)
     = Inr (fst (projr (IndexPlaylist vod_ctx (track_with eTRACK_VIDEO endlist_playlist))),
            snd (projr (IndexPlaylist vod_ctx (track_with eTRACK_VIDEO endlist_playlist))))"
    using r2 by (cases "IndexPlaylist vod_ctx (track_with eTRACK_VIDEO endlist_playlist)") auto
  have h: "has_ENDLIST (track_with eTRACK_VIDEO endlist_playlist)"
    and d: "\<not> declares_EVENT_without_ENDLIST (track_with eTRACK_VIDEO endlist_playlist)"
    by (simp_all add: has_ENDLIST_def declares_EVENT_without_ENDLIST_def track_with_def
        endlist_playlist_def playlist_text_def CHAR_LF_def TrackState_new_def)
  have k: "playlistType (Context_new 0 1) = ePLAYLISTTYPE_UNDEFINED" "playlistType vod_ctx = ePLAYLISTTYPE_VOD"
    by (simp_all add: vod_ctx_def Context_new_def)
  from playlist_kind_vod_amended [OF e1] playlist_kind_vod_amended [OF e2] h d k e1 e2
  show ?thesis by simp
qed

end
